theory Spec2Isabelle
  imports Complex_Main
begin

section \<open>Python values handled by the incident detector\<close>

text \<open>
  The embedding follows \<^verbatim>\<open>src/incident_detector/main.py\<close>. Every exception the
  source can raise is a value: functions that may raise return \<open>py_error + 'a\<close>, with
  \<open>Inl\<close> the exception. \<open>EnvError\<close> stands for an exception raised inside the
  environment (\<^verbatim>\<open>open\<close>, \<^verbatim>\<open>requests.get\<close>, \<^verbatim>\<open>requests.post\<close>,
  \<^verbatim>\<open>response.json\<close>, \<^verbatim>\<open>print\<close>), named by its text; \<open>HTTPError\<close> is what
  \<^verbatim>\<open>raise_for_status\<close> raises, with the status code.

  Python \<^verbatim>\<open>str\<close> values are of type \<open>string\<close>; the program only compares,
  concatenates and tests them for emptiness and for a final \<^verbatim>\<open>Z\<close>.
\<close>

datatype py_error =
    ValueError
  | TypeError
  | OverflowError
  | AttributeError
  | IndexError
  | KeyError
  | HTTPError nat
  | EnvError string

subsection \<open>datetime and timedelta\<close>

text \<open>
  A \<^verbatim>\<open>datetime\<close> is either timezone-aware (the instant in microseconds since
  0001-01-01T00:00:00 UTC, and its UTC offset in microseconds) or naive (its wall-clock
  fields in microseconds since 0001-01-01T00:00:00). Python compares two aware values by
  instant, two naive values by fields, and raises \<^verbatim>\<open>TypeError\<close> on a mixed pair.
  A \<^verbatim>\<open>timedelta\<close> is a number of microseconds.
\<close>

datatype datetime = Aware int int | Naive int

definition dt_max :: int where
  "dt_max = 315537897599999999"

definition dt_lt :: "datetime \<Rightarrow> datetime \<Rightarrow> py_error + bool" where
  "dt_lt a b =
     (case (a, b) of
        (Aware i _, Aware j _) \<Rightarrow> Inr (i < j)
      | (Naive i, Naive j) \<Rightarrow> Inr (i < j)
      | _ \<Rightarrow> Inl TypeError)"

definition dt_gt :: "datetime \<Rightarrow> datetime \<Rightarrow> py_error + bool" where
  "dt_gt a b = dt_lt b a"

text \<open>\<^verbatim>\<open>timedelta(minutes=m)\<close>: the day count must stay within 999999999 in magnitude.\<close>

definition timedelta_minutes :: "int \<Rightarrow> py_error + int" where
  "timedelta_minutes m =
     (if m div 1440 < - 999999999 \<or> 999999999 < m div 1440 then Inl OverflowError
      else Inr (m * 60000000))"

text \<open>\<^verbatim>\<open>d - td\<close>: the fields of the result must lie in years 1 to 9999.\<close>

definition datetime_sub :: "datetime \<Rightarrow> int \<Rightarrow> py_error + datetime" where
  "datetime_sub d td =
     (case d of
        Aware i off \<Rightarrow>
          (if i + off - td < 0 \<or> dt_max < i + off - td then Inl OverflowError
           else Inr (Aware (i - td) off))
      | Naive i \<Rightarrow>
          (if i - td < 0 \<or> dt_max < i - td then Inl OverflowError
           else Inr (Naive (i - td))))"

text \<open>\<^verbatim>\<open>datetime.now(timezone.utc)\<close> at clock reading \<open>now\<close>.\<close>

definition utc_now :: "int \<Rightarrow> datetime" where
  "utc_now now = Aware now 0"

subsection \<open>float, int and str\<close>

datatype pyfloat = Fin real | PInf | NInf | NaN

text \<open>\<^verbatim>\<open>int(f)\<close> truncates toward zero; it raises on infinities and on NaN.\<close>

definition py_int_of_float :: "pyfloat \<Rightarrow> py_error + int" where
  "py_int_of_float f =
     (case f of
        Fin r \<Rightarrow> Inr (if 0 \<le> r then \<lfloor>r\<rfloor> else \<lceil>r\<rceil>)
      | PInf \<Rightarrow> Inl OverflowError
      | NInf \<Rightarrow> Inl OverflowError
      | NaN \<Rightarrow> Inl ValueError)"

fun str_nat :: "nat \<Rightarrow> string" where
  "str_nat n =
     (if n < 10 then [char_of (48 + n)]
      else str_nat (n div 10) @ [char_of (48 + n mod 10)])"

declare str_nat.simps [simp del]

text \<open>\<^verbatim>\<open>str(i)\<close>, as an f-string renders an \<^verbatim>\<open>int\<close>.\<close>

definition str_int :: "int \<Rightarrow> string" where
  "str_int i = (if i < 0 then CHR ''-'' # str_nat (nat (- i)) else str_nat (nat i))"

subsection \<open>Parsed JSON\<close>

text \<open>
  What \<^verbatim>\<open>response.json()\<close> returns: \<^verbatim>\<open>None\<close>, \<^verbatim>\<open>bool\<close>, \<^verbatim>\<open>int\<close>,
  \<^verbatim>\<open>float\<close>, \<^verbatim>\<open>str\<close>, \<^verbatim>\<open>list\<close> or \<^verbatim>\<open>dict\<close> with \<^verbatim>\<open>str\<close> keys
  (a \<open>JDict\<close> lists the items of the dict, each key once).
\<close>

datatype json =
    JNull
  | JBool bool
  | JInt int
  | JFloat pyfloat
  | JStr string
  | JList "json list"
  | JDict "(string \<times> json) list"

text \<open>Truth value testing, as in \<^verbatim>\<open>if not results\<close>.\<close>

fun py_truthy :: "json \<Rightarrow> bool" where
  "py_truthy JNull = False"
| "py_truthy (JBool b) = b"
| "py_truthy (JInt i) = (i \<noteq> 0)"
| "py_truthy (JFloat f) = (f \<noteq> Fin 0)"
| "py_truthy (JStr s) = (s \<noteq> [])"
| "py_truthy (JList xs) = (xs \<noteq> [])"
| "py_truthy (JDict kvs) = (kvs \<noteq> [])"

text \<open>\<^verbatim>\<open>x.get(key, default)\<close>: only a dict has the method.\<close>

fun py_get :: "json \<Rightarrow> string \<Rightarrow> json \<Rightarrow> py_error + json" where
  "py_get (JDict kvs) k d = Inr (case map_of kvs k of None \<Rightarrow> d | Some v \<Rightarrow> v)"
| "py_get _ k d = Inl AttributeError"

text \<open>
  \<^verbatim>\<open>x[i]\<close> for an integer \<open>i\<close>; a negative index counts from the end. A dict from
  JSON has no integer key; numbers, booleans and \<^verbatim>\<open>None\<close> are not subscriptable.
\<close>

definition py_seq_index :: "'a list \<Rightarrow> int \<Rightarrow> py_error + 'a" where
  "py_seq_index xs i =
     (if 0 \<le> i \<and> i < int (length xs) then Inr (xs ! nat i)
      else if i < 0 \<and> - int (length xs) \<le> i then Inr (xs ! nat (int (length xs) + i))
      else Inl IndexError)"

fun py_index :: "json \<Rightarrow> int \<Rightarrow> py_error + json" where
  "py_index (JList xs) i = py_seq_index xs i"
| "py_index (JStr s) i =
     (case py_seq_index s i of Inl e \<Rightarrow> Inl e | Inr c \<Rightarrow> Inr (JStr [c]))"
| "py_index (JDict kvs) i = Inl KeyError"
| "py_index _ i = Inl TypeError"

section \<open>Library functions taken as parameters\<close>

text \<open>
  The standard-library functions whose results the program uses but whose code is not
  part of the repository:
  \<^item> \<open>fromisoformat\<close>: \<^verbatim>\<open>datetime.fromisoformat\<close>, which raises on a malformed text;
  \<^item> \<open>isoformat\<close>: \<^verbatim>\<open>datetime.isoformat\<close>;
  \<^item> \<open>float_of_str\<close>: \<^verbatim>\<open>float(s)\<close> for a \<^verbatim>\<open>str\<close>, \<open>None\<close> where it raises
    \<^verbatim>\<open>ValueError\<close>;
  \<^item> \<open>float_of_int\<close>: \<^verbatim>\<open>float(i)\<close> for an \<^verbatim>\<open>int\<close>, \<open>None\<close> where it raises
    \<^verbatim>\<open>OverflowError\<close>;
  \<^item> \<open>str_exc\<close>: \<^verbatim>\<open>str(exc)\<close>;
  \<^item> \<open>getenv\<close>: \<^verbatim>\<open>os.getenv\<close>;
  \<^item> \<open>sleep\<close>: \<^verbatim>\<open>time.sleep\<close>, \<open>None\<close> where it returns.
\<close>

record pylib =
  fromisoformat :: "string \<Rightarrow> py_error + datetime"
  isoformat :: "datetime \<Rightarrow> string"
  float_of_str :: "string \<Rightarrow> pyfloat option"
  float_of_int :: "int \<Rightarrow> pyfloat option"
  str_exc :: "py_error \<Rightarrow> string"
  getenv :: "string \<Rightarrow> string option"
  sleep :: "int \<Rightarrow> py_error option"

text \<open>\<^verbatim>\<open>float(x)\<close> on a parsed JSON value.\<close>

fun py_float :: "pylib \<Rightarrow> json \<Rightarrow> py_error + pyfloat" where
  "py_float lib (JStr s) =
     (case float_of_str lib s of None \<Rightarrow> Inl ValueError | Some f \<Rightarrow> Inr f)"
| "py_float lib (JInt i) =
     (case float_of_int lib i of None \<Rightarrow> Inl OverflowError | Some f \<Rightarrow> Inr f)"
| "py_float lib (JFloat f) = Inr f"
| "py_float lib (JBool b) = Inr (Fin (if b then 1 else 0))"
| "py_float lib _ = Inl TypeError"

section \<open>Data model\<close>

record incident =
  incident_id :: string
  namespace :: string
  deployment :: string
  revision :: string
  rollout_time :: string
  error_count :: int
  error_window_minutes :: int
  detected_at :: string
  signal :: string
  impact :: string
  recommended_action :: string

record config =
  namespace :: string
  target_deployment :: string
  loki_url :: string
  error_threshold :: int
  rollout_window_minutes :: int
  poll_interval_seconds :: int
  slack_webhook_url :: "string option"
  loki_label_app :: string

record state =
  last_poll_time :: "string option"
  last_error_count :: "int option"
  last_rollout_revision :: "string option"
  last_rollout_time :: "string option"
  last_incident_revision :: "string option"
  last_incident :: "incident option"
  last_slack_status :: "string option"

text \<open>\<^verbatim>\<open>State()\<close>: every field \<^verbatim>\<open>None\<close>.\<close>

definition initial_state :: state where
  "initial_state =
     \<lparr>last_poll_time = None, last_error_count = None, last_rollout_revision = None,
      last_rollout_time = None, last_incident_revision = None, last_incident = None,
      last_slack_status = None\<rparr>"

subsection \<open>The environment of one poll cycle\<close>

text \<open>
  A ReplicaSet list as the Kubernetes API types it. A field is \<open>None\<close> when its key is
  absent from the object, which is what the source's \<^verbatim>\<open>.get\<close> calls test.
\<close>

record owner_ref =
  ref_kind :: "string option"
  ref_name :: "string option"

record metadata =
  ownerReferences :: "owner_ref list option"
  annotations :: "(string \<times> string) list option"
  creationTimestamp :: "string option"

record replicaset =
  metadata :: "metadata option"

record replicaset_list =
  items :: "replicaset list option"

record 'a response =
  status_code :: nat
  json_body :: "py_error + 'a"

text \<open>
  What the outside world answers during one cycle: the result of reading the service
  account token, of each HTTP request, of writing to standard output, and the clock
  readings of the \<^verbatim>\<open>datetime.now\<close> calls (in \<^verbatim>\<open>fetch_error_count\<close>, in
  \<^verbatim>\<open>poll_loop\<close>, in \<^verbatim>\<open>should_trigger_incident\<close> and in \<^verbatim>\<open>build_incident\<close>).
\<close>

record world =
  token_file :: "py_error + string"
  kube_get :: "py_error + replicaset_list response"
  loki_get :: "py_error + json response"
  slack_post :: "py_error + nat"
  stdout_write :: "py_error option"
  clock_fetch :: int
  clock_poll :: int
  clock_eval :: int
  clock_build :: int

text \<open>
  What a cycle does to the outside world, in order. \<open>Built\<close> and \<open>Notify\<close> are not
  I/O: they mark the calls of \<^verbatim>\<open>build_incident\<close> and
  \<^verbatim>\<open>send_slack_notification\<close>, so that the calls can be counted.
\<close>

datatype event =
    HttpGet string "(string \<times> string) list"
  | HttpPost string string
  | Stdout incident
  | Built incident
  | Notify incident

section \<open>Signal sources\<close>

text \<open>Sequencing of calls that may raise: the first exception ends the computation.\<close>

definition bind_exc :: "py_error + 'a \<Rightarrow> ('a \<Rightarrow> py_error + 'b) \<Rightarrow> py_error + 'b" where
  "bind_exc x f = (case x of Inl e \<Rightarrow> Inl e | Inr v \<Rightarrow> f v)"

definition parse_rfc3339 :: "pylib \<Rightarrow> string \<Rightarrow> py_error + datetime" where
  "parse_rfc3339 lib timestamp =
     (if timestamp \<noteq> [] \<and> last timestamp = CHR ''Z''
      then fromisoformat lib (butlast timestamp @ ''+00:00'')
      else fromisoformat lib timestamp)"

definition get_kube_api_base :: "pylib \<Rightarrow> string" where
  "get_kube_api_base lib =
     (let host = (case getenv lib ''KUBERNETES_SERVICE_HOST'' of
                    None \<Rightarrow> ''kubernetes.default.svc'' | Some h \<Rightarrow> h);
          port = (case getenv lib ''KUBERNETES_SERVICE_PORT'' of
                    None \<Rightarrow> ''443'' | Some p \<Rightarrow> p)
      in ''https://'' @ host @ '':'' @ port)"

definition raise_for_status :: "'a response \<Rightarrow> py_error option" where
  "raise_for_status r =
     (if 400 \<le> status_code r \<and> status_code r < 600 then Some (HTTPError (status_code r))
      else None)"

text \<open>
  \<^verbatim>\<open>kube_request\<close>: read the token, GET, \<^verbatim>\<open>raise_for_status\<close>, parse the body.
  The request headers are not recorded in the event.
\<close>

definition kube_request ::
  "pylib \<Rightarrow> world \<Rightarrow> string \<Rightarrow> (py_error + replicaset_list) \<times> event list" where
  "kube_request lib w path =
     (case token_file w of
        Inl e \<Rightarrow> (Inl e, [])
      | Inr token \<Rightarrow>
          (let ev = [HttpGet (get_kube_api_base lib @ path) []]
           in case kube_get w of
                Inl e \<Rightarrow> (Inl e, ev)
              | Inr resp \<Rightarrow>
                  (case raise_for_status resp of
                     Some e \<Rightarrow> (Inl e, ev)
                   | None \<Rightarrow> (json_body resp, ev))))"

definition owned_by_deployment :: "string \<Rightarrow> owner_ref list \<Rightarrow> bool" where
  "owned_by_deployment dep owner_refs =
     list_ex (\<lambda>r. ref_kind r = Some ''Deployment'' \<and> ref_name r = Some dep) owner_refs"

definition replica_metadata :: "replicaset \<Rightarrow> metadata" where
  "replica_metadata replica =
     (case metadata replica of
        None \<Rightarrow> \<lparr>ownerReferences = None, annotations = None, creationTimestamp = None\<rparr>
      | Some m \<Rightarrow> m)"

definition replica_owner_refs :: "replicaset \<Rightarrow> owner_ref list" where
  "replica_owner_refs replica =
     (case ownerReferences (replica_metadata replica) of None \<Rightarrow> [] | Some rs \<Rightarrow> rs)"

definition replica_revision :: "replicaset \<Rightarrow> string option" where
  "replica_revision replica =
     map_of (case annotations (replica_metadata replica) of None \<Rightarrow> [] | Some a \<Rightarrow> a)
       ''deployment.kubernetes.io/revision''"

definition replica_created_at :: "replicaset \<Rightarrow> string option" where
  "replica_created_at replica = creationTimestamp (replica_metadata replica)"

text \<open>
  One iteration of the loop of \<^verbatim>\<open>fetch_rollout_info\<close> on the pair
  \<open>(latest_revision, latest_time)\<close>. An absent or empty revision or timestamp is falsy
  and skips the object; a timestamp that does not parse, or a comparison of a naive
  with an aware time, raises.
\<close>

definition rollout_step ::
  "pylib \<Rightarrow> string \<Rightarrow> replicaset \<Rightarrow> string option \<times> datetime option
     \<Rightarrow> py_error + (string option \<times> datetime option)" where
  "rollout_step lib dep replica acc =
     (if \<not> owned_by_deployment dep (replica_owner_refs replica) then Inr acc
      else
        (case (replica_revision replica, replica_created_at replica) of
           (Some rv, Some created_at) \<Rightarrow>
             (if rv = [] \<or> created_at = [] then Inr acc
              else
                bind_exc (parse_rfc3339 lib created_at) (\<lambda>created_time.
                  (case snd acc of
                     None \<Rightarrow> Inr (Some rv, Some created_time)
                   | Some latest_time \<Rightarrow>
                       bind_exc (dt_gt created_time latest_time) (\<lambda>later.
                         if later then Inr (Some rv, Some created_time) else Inr acc))))
         | _ \<Rightarrow> Inr acc))"

fun rollout_scan ::
  "pylib \<Rightarrow> string \<Rightarrow> replicaset list \<Rightarrow> string option \<times> datetime option
     \<Rightarrow> py_error + (string option \<times> datetime option)" where
  "rollout_scan lib dep [] acc = Inr acc"
| "rollout_scan lib dep (replica # rest) acc =
     bind_exc (rollout_step lib dep replica acc) (rollout_scan lib dep rest)"

definition fetch_rollout_info ::
  "pylib \<Rightarrow> world \<Rightarrow> string \<Rightarrow> string
     \<Rightarrow> (py_error + (string \<times> datetime) option) \<times> event list" where
  "fetch_rollout_info lib w ns dep =
     (case kube_request lib w (''/apis/apps/v1/namespaces/'' @ ns @ ''/replicasets'') of
        (Inl e, ev) \<Rightarrow> (Inl e, ev)
      | (Inr resp, ev) \<Rightarrow>
          (case rollout_scan lib dep (case items resp of None \<Rightarrow> [] | Some xs \<Rightarrow> xs)
                  (None, None) of
             Inl e \<Rightarrow> (Inl e, ev)
           | Inr (Some latest_revision, Some latest_time) \<Rightarrow>
               (if latest_revision \<noteq> [] then (Inr (Some (latest_revision, latest_time)), ev)
                else (Inr None, ev))
           | Inr _ \<Rightarrow> (Inr None, ev)))"

text \<open>\<^verbatim>\<open>s.rstrip('/')\<close>.\<close>

definition rstrip_slash :: "string \<Rightarrow> string" where
  "rstrip_slash s = rev (dropWhile (\<lambda>c. c = CHR ''/'') (rev s))"

definition loki_query :: "config \<Rightarrow> string" where
  "loki_query cfg =
     ''sum(count_over_time({namespace='' @ [CHR 0x22] @ namespace cfg @ [CHR 0x22]
       @ '',app='' @ [CHR 0x22] @ loki_label_app cfg @ [CHR 0x22] @ ''} |~ '' @ [CHR 0x22]
       @ ''(?i)(500|exception|error)'' @ [CHR 0x22] @ '' [2m]))''"

text \<open>
  The part of \<^verbatim>\<open>fetch_error_count\<close> after \<^verbatim>\<open>response.json()\<close>. Only
  \<^verbatim>\<open>ValueError\<close> raised by \<^verbatim>\<open>int(float(latest_value))\<close> is caught.
\<close>

definition error_count_of :: "pylib \<Rightarrow> json \<Rightarrow> py_error + int" where
  "error_count_of lib data =
     bind_exc (py_get data ''data'' (JDict [])) (\<lambda>d.
     bind_exc (py_get d ''result'' (JList [])) (\<lambda>results.
       if \<not> py_truthy results then Inr 0
       else
         bind_exc (py_index results 0) (\<lambda>series.
         bind_exc (py_get series ''values'' (JList [])) (\<lambda>vals.
           if \<not> py_truthy vals then Inr 0
           else
             bind_exc (py_index vals (- 1)) (\<lambda>point.
             bind_exc (py_index point 1) (\<lambda>latest_value.
               (case bind_exc (py_float lib latest_value) py_int_of_float of
                  Inl ValueError \<Rightarrow> Inr 0
                | Inl e \<Rightarrow> Inl e
                | Inr n \<Rightarrow> Inr n)))))))"

text \<open>
  \<^verbatim>\<open>fetch_error_count\<close>. The clock reading only enters the request parameters; a
  running system's clock is far from the ends of the \<^verbatim>\<open>datetime\<close> range, so
  \<^verbatim>\<open>now - timedelta(minutes=2)\<close> is not a failure branch.
\<close>

definition fetch_error_count ::
  "pylib \<Rightarrow> config \<Rightarrow> world \<Rightarrow> (py_error + int) \<times> event list" where
  "fetch_error_count lib cfg w =
     (if loki_url cfg = [] then (Inr 0, [])
      else
        (let now = utc_now (clock_fetch w);
             start = Aware (clock_fetch w - 120000000) 0;
             params = [(''query'', loki_query cfg), (''start'', isoformat lib start),
                       (''end'', isoformat lib now), (''step'', ''30s'')];
             ev = [HttpGet (rstrip_slash (loki_url cfg) @ ''/loki/api/v1/query_range'') params]
         in case loki_get w of
              Inl e \<Rightarrow> (Inl e, ev)
            | Inr resp \<Rightarrow>
                (case raise_for_status resp of
                   Some e \<Rightarrow> (Inl e, ev)
                 | None \<Rightarrow> (bind_exc (json_body resp) (error_count_of lib), ev))))"

section \<open>Incident builder and notifier\<close>

definition build_incident ::
  "pylib \<Rightarrow> int \<Rightarrow> config \<Rightarrow> string \<Rightarrow> datetime \<Rightarrow> int \<Rightarrow> incident" where
  "build_incident lib now cfg rv rtime ec =
     \<lparr>incident_id = namespace cfg @ '':'' @ target_deployment cfg @ '':'' @ rv,
      incident.namespace = namespace cfg,
      deployment = target_deployment cfg,
      revision = rv,
      rollout_time = isoformat lib rtime,
      error_count = ec,
      error_window_minutes = 2,
      detected_at = isoformat lib (utc_now now),
      signal = ''Error logs spiked to '' @ str_int ec
                 @ '' in the last 2 minutes while a new rollout was detected.'',
      impact = ''Customers may be seeing failures from '' @ target_deployment cfg
                 @ '' (HTTP 500 / exceptions).'',
      recommended_action = ''Rollback deployment '' @ target_deployment cfg
                 @ '' to the previous revision.''\<rparr>"

definition format_slack_message :: "incident \<Rightarrow> string" where
  "format_slack_message inc =
     ''Deployment regression detected.'' @ [CHR 0x0A]
     @ ''Signal: '' @ signal inc @ [CHR 0x0A]
     @ ''Correlation to rollout: revision '' @ revision inc @ '' created at ''
     @ rollout_time inc @ ''.'' @ [CHR 0x0A]
     @ ''Impact: '' @ impact inc @ [CHR 0x0A]
     @ ''Recommended action: '' @ recommended_action inc"

text \<open>
  \<^verbatim>\<open>send_slack_notification\<close>: a webhook that is \<^verbatim>\<open>None\<close> or empty is falsy.
  A failed POST and a failure status both raise.
\<close>

definition send_slack_notification ::
  "string option \<Rightarrow> incident \<Rightarrow> world \<Rightarrow> (py_error + string) \<times> event list" where
  "send_slack_notification webhook_url inc w =
     (case webhook_url of
        None \<Rightarrow> (Inr ''skipped (no webhook configured)'', [])
      | Some url \<Rightarrow>
          (if url = [] then (Inr ''skipped (no webhook configured)'', [])
           else
             (let ev = [HttpPost url (format_slack_message inc)]
              in case slack_post w of
                   Inl e \<Rightarrow> (Inl e, ev)
                 | Inr code \<Rightarrow>
                     (if 400 \<le> code \<and> code < 600 then (Inl (HTTPError code), ev)
                      else (Inr (''sent ('' @ str_int (int code) @ '')''), ev)))))"

section \<open>Trigger evaluator\<close>

text \<open>
  \<^verbatim>\<open>datetime.now(timezone.utc) - timedelta(minutes=config.rollout_window_minutes)\<close>,
  at clock reading \<open>now\<close>.
\<close>

definition window_start :: "int \<Rightarrow> config \<Rightarrow> py_error + datetime" where
  "window_start now cfg =
     bind_exc (timedelta_minutes (rollout_window_minutes cfg)) (datetime_sub (utc_now now))"

definition should_trigger_incident ::
  "int \<Rightarrow> config \<Rightarrow> (string \<times> datetime) option \<Rightarrow> int
     \<Rightarrow> py_error + (string \<times> datetime) option" where
  "should_trigger_incident now cfg rollout ec =
     (case rollout of
        None \<Rightarrow> Inr None
      | Some (rv, rtime) \<Rightarrow>
          bind_exc (window_start now cfg) (\<lambda>ws.
          bind_exc (dt_lt rtime ws) (\<lambda>stale.
            if stale then Inr None
            else if ec < error_threshold cfg then Inr None
            else Inr (Some (rv, rtime)))))"

section \<open>Poll cycle driver\<close>

definition record_error :: "pylib \<Rightarrow> py_error \<Rightarrow> state \<Rightarrow> state" where
  "record_error lib e st = st\<lparr>last_slack_status := Some (''error: '' @ str_exc lib e)\<rparr>"

text \<open>
  One iteration of the \<^verbatim>\<open>while True\<close> of \<^verbatim>\<open>poll_loop\<close>, without the sleep: the
  \<^verbatim>\<open>try\<close> body and its \<^verbatim>\<open>except Exception\<close>. The state is mutated in place, so
  an exception keeps the assignments made before it.
\<close>

definition poll_cycle :: "pylib \<Rightarrow> config \<Rightarrow> state \<Rightarrow> world \<Rightarrow> state \<times> event list" where
  "poll_cycle lib cfg st w =
     (case fetch_rollout_info lib w (namespace cfg) (target_deployment cfg) of
        (Inl e, ev1) \<Rightarrow> (record_error lib e st, ev1)
      | (Inr rollout, ev1) \<Rightarrow>
          (case fetch_error_count lib cfg w of
             (Inl e, ev2) \<Rightarrow> (record_error lib e st, ev1 @ ev2)
           | (Inr ec, ev2) \<Rightarrow>
               (let st1 = st\<lparr>last_poll_time := Some (isoformat lib (utc_now (clock_poll w))),
                              last_error_count := Some ec\<rparr>;
                    st2 = (case rollout of
                             None \<Rightarrow> st1
                           | Some (rv, rtime) \<Rightarrow>
                               st1\<lparr>last_rollout_revision := Some rv,
                                    last_rollout_time := Some (isoformat lib rtime)\<rparr>)
                in case should_trigger_incident (clock_eval w) cfg rollout ec of
                     Inl e \<Rightarrow> (record_error lib e st2, ev1 @ ev2)
                   | Inr None \<Rightarrow> (st2, ev1 @ ev2)
                   | Inr (Some (rv, rtime)) \<Rightarrow>
                       (if Some rv \<noteq> last_incident_revision st2 then
                          (let inc = build_incident lib (clock_build w) cfg rv rtime ec
                           in case send_slack_notification (slack_webhook_url cfg) inc w of
                                (Inl e, ev3) \<Rightarrow>
                                  (record_error lib e st2,
                                   ev1 @ ev2 @ [Built inc, Notify inc] @ ev3)
                              | (Inr slack_status, ev3) \<Rightarrow>
                                  (let st3 = st2\<lparr>last_incident_revision := Some rv,
                                                  last_incident := Some inc,
                                                  last_slack_status := Some slack_status\<rparr>
                                   in case stdout_write w of
                                        Some e \<Rightarrow>
                                          (record_error lib e st3,
                                           ev1 @ ev2 @ [Built inc, Notify inc] @ ev3)
                                      | None \<Rightarrow>
                                          (st3, ev1 @ ev2 @ [Built inc, Notify inc] @ ev3
                                                  @ [Stdout inc])))
                        else (st2, ev1 @ ev2)))))"

text \<open>
  \<^verbatim>\<open>poll_loop\<close> never returns by itself. It is run here on the worlds of its first
  cycles, one per iteration: the result is the exception that ended the thread, if
  any (only \<^verbatim>\<open>time.sleep\<close> is outside the \<^verbatim>\<open>try\<close>), the state and the events so far.
\<close>

fun poll_loop ::
  "pylib \<Rightarrow> config \<Rightarrow> state \<Rightarrow> world list \<Rightarrow> py_error option \<times> state \<times> event list" where
  "poll_loop lib cfg st [] = (None, st, [])"
| "poll_loop lib cfg st (w # ws) =
     (case poll_cycle lib cfg st w of
        (st', ev) \<Rightarrow>
          (case sleep lib (poll_interval_seconds cfg) of
             Some e \<Rightarrow> (Some e, st', ev)
           | None \<Rightarrow>
               (case poll_loop lib cfg st' ws of
                  (r, st'', ev') \<Rightarrow> (r, st'', ev @ ev'))))"

section \<open>What the rollout fetch is specified to return\<close>

text \<open>
  The specification of \<^verbatim>\<open>fetchRollout\<close>, in its own words: among the objects owned by
  the named deployment that carry both a revision annotation and a creation
  timestamp (\<open>qualifying\<close>), the one with the latest creation timestamp. \<open>latest_of\<close>
  picks the first candidate, in the order of the list, that no candidate is later than.
\<close>

definition instant :: "datetime \<Rightarrow> int" where
  "instant d = (case d of Aware i off \<Rightarrow> i | Naive i \<Rightarrow> i)"

definition qualifying :: "string \<Rightarrow> replicaset \<Rightarrow> bool" where
  "qualifying dep r =
     (owned_by_deployment dep (replica_owner_refs r)
      \<and> replica_revision r \<noteq> None \<and> replica_created_at r \<noteq> None)"

text \<open>
  What the rollout source promises of an object: a revision annotation, when present,
  is not empty, and a creation timestamp, when present, is an RFC3339 time (it parses
  to a timezone-aware time).
\<close>

definition well_formed :: "pylib \<Rightarrow> replicaset \<Rightarrow> bool" where
  "well_formed lib r =
     ((case replica_revision r of None \<Rightarrow> True | Some rv \<Rightarrow> rv \<noteq> [])
      \<and> (case replica_created_at r of
           None \<Rightarrow> True
         | Some c \<Rightarrow> c \<noteq> [] \<and> (case parse_rfc3339 lib c of
                                    Inr (Aware i off) \<Rightarrow> True | _ \<Rightarrow> False)))"

definition candidate :: "pylib \<Rightarrow> string \<Rightarrow> replicaset \<Rightarrow> (string \<times> datetime) option" where
  "candidate lib dep r =
     (if qualifying dep r then
        (case (replica_revision r, replica_created_at r) of
           (Some rv, Some c) \<Rightarrow>
             (case parse_rfc3339 lib c of Inr t \<Rightarrow> Some (rv, t) | Inl e \<Rightarrow> None)
         | _ \<Rightarrow> None)
      else None)"

definition candidates :: "pylib \<Rightarrow> string \<Rightarrow> replicaset list \<Rightarrow> (string \<times> datetime) list" where
  "candidates lib dep rs = List.map_filter (candidate lib dep) rs"

definition is_latest :: "(string \<times> datetime) list \<Rightarrow> string \<times> datetime \<Rightarrow> bool" where
  "is_latest cs c = list_all (\<lambda>c'. instant (snd c') \<le> instant (snd c)) cs"

definition latest_of :: "(string \<times> datetime) list \<Rightarrow> (string \<times> datetime) option" where
  "latest_of cs = find (is_latest cs) cs"

definition replicas_of :: "replicaset_list \<Rightarrow> replicaset list" where
  "replicas_of resp = (case items resp of None \<Rightarrow> [] | Some xs \<Rightarrow> xs)"

section \<open>Observing a cycle\<close>

fun is_get :: "event \<Rightarrow> bool" where
  "is_get (HttpGet url params) = True"
| "is_get _ = False"

fun is_post :: "event \<Rightarrow> bool" where
  "is_post (HttpPost url body) = True"
| "is_post _ = False"

fun is_built :: "event \<Rightarrow> bool" where
  "is_built (Built inc) = True"
| "is_built _ = False"

fun is_notify :: "event \<Rightarrow> bool" where
  "is_notify (Notify inc) = True"
| "is_notify _ = False"

fun is_stdout :: "event \<Rightarrow> bool" where
  "is_stdout (Stdout inc) = True"
| "is_stdout _ = False"

text \<open>
  The trigger condition holds for revision \<open>R\<close> in the world of a cycle: both fetches
  return, the rollout observed is \<open>R\<close>, and the evaluator triggers on it.
\<close>

definition triggers_on :: "pylib \<Rightarrow> config \<Rightarrow> string \<Rightarrow> world \<Rightarrow> bool" where
  "triggers_on lib cfg R w =
     (case fst (fetch_rollout_info lib w (namespace cfg) (target_deployment cfg)) of
        Inr (Some (rv, rtime)) \<Rightarrow>
          rv = R \<and>
          (case fst (fetch_error_count lib cfg w) of
             Inr ec \<Rightarrow>
               should_trigger_incident (clock_eval w) cfg (Some (rv, rtime)) ec
                 = Inr (Some (rv, rtime))
           | Inl e \<Rightarrow> False)
      | _ \<Rightarrow> False)"

text \<open>A webhook is configured when it is neither \<^verbatim>\<open>None\<close> nor empty.\<close>

definition configured :: "string option \<Rightarrow> bool" where
  "configured webhook_url = (case webhook_url of None \<Rightarrow> False | Some url \<Rightarrow> url \<noteq> [])"

text \<open>
  The exception a delivery ends with, if any: the POST itself raises, or it returns a
  failure status and \<^verbatim>\<open>raise_for_status\<close> raises.
\<close>

definition delivery_error :: "world \<Rightarrow> py_error option" where
  "delivery_error w =
     (case slack_post w of
        Inl e \<Rightarrow> Some e
      | Inr code \<Rightarrow> if 400 \<le> code \<and> code < 600 then Some (HTTPError code) else None)"

text \<open>
  An emitting cycle is successful in a world where the notifier returns (no webhook, or
  a delivery without exception) and the write to standard output succeeds.
\<close>

definition delivers :: "config \<Rightarrow> world \<Rightarrow> bool" where
  "delivers cfg w =
     ((configured (slack_webhook_url cfg) \<longrightarrow> delivery_error w = None)
      \<and> stdout_write w = None)"

text \<open>
  The state after the assignments to \<^verbatim>\<open>last_poll_time\<close>, \<^verbatim>\<open>last_error_count\<close> and,
  when a rollout was found, \<^verbatim>\<open>last_rollout_revision\<close> and \<^verbatim>\<open>last_rollout_time\<close>.
\<close>

definition observed ::
  "pylib \<Rightarrow> state \<Rightarrow> world \<Rightarrow> int \<Rightarrow> (string \<times> datetime) option \<Rightarrow> state" where
  "observed lib st w ec rollout =
     (case rollout of
        None \<Rightarrow> st\<lparr>last_poll_time := Some (isoformat lib (utc_now (clock_poll w))),
                    last_error_count := Some ec\<rparr>
      | Some (rv, rtime) \<Rightarrow>
          st\<lparr>last_poll_time := Some (isoformat lib (utc_now (clock_poll w))),
              last_error_count := Some ec,
              last_rollout_revision := Some rv,
              last_rollout_time := Some (isoformat lib rtime)\<rparr>)"

text \<open>
  The source guards nothing with a lock: \<^verbatim>\<open>poll_loop\<close> assigns the fields of the
  shared \<^verbatim>\<open>state\<close> object one statement at a time while \<^verbatim>\<open>status\<close> reads them from
  another thread. \<open>poll_cycle_states\<close> lists the successive values of the state during
  one cycle, one per assignment, in program order: the states a reader can find.
\<close>

definition poll_cycle_states :: "pylib \<Rightarrow> config \<Rightarrow> state \<Rightarrow> world \<Rightarrow> state list" where
  "poll_cycle_states lib cfg st w =
     (case fst (fetch_rollout_info lib w (namespace cfg) (target_deployment cfg)) of
        Inl e \<Rightarrow> [record_error lib e st]
      | Inr rollout \<Rightarrow>
          (case fst (fetch_error_count lib cfg w) of
             Inl e \<Rightarrow> [record_error lib e st]
           | Inr ec \<Rightarrow>
               (let s1 = st\<lparr>last_poll_time := Some (isoformat lib (utc_now (clock_poll w)))\<rparr>;
                    s2 = s1\<lparr>last_error_count := Some ec\<rparr>;
                    s3 = (case rollout of
                            None \<Rightarrow> s2
                          | Some (rv, rtime) \<Rightarrow> s2\<lparr>last_rollout_revision := Some rv\<rparr>);
                    s4 = (case rollout of
                            None \<Rightarrow> s3
                          | Some (rv, rtime) \<Rightarrow>
                              s3\<lparr>last_rollout_time := Some (isoformat lib rtime)\<rparr>)
                in [s1, s2] @ (case rollout of None \<Rightarrow> [] | Some x \<Rightarrow> [s3, s4]) @
                   (case should_trigger_incident (clock_eval w) cfg rollout ec of
                      Inl e \<Rightarrow> [record_error lib e s4]
                    | Inr None \<Rightarrow> []
                    | Inr (Some (rv, rtime)) \<Rightarrow>
                        (if Some rv \<noteq> last_incident_revision s4 then
                           (let inc = build_incident lib (clock_build w) cfg rv rtime ec
                            in case fst (send_slack_notification (slack_webhook_url cfg) inc w) of
                                 Inl e \<Rightarrow> [record_error lib e s4]
                               | Inr slack_status \<Rightarrow>
                                   (let s5 = s4\<lparr>last_incident_revision := Some rv\<rparr>;
                                        s6 = s5\<lparr>last_incident := Some inc\<rparr>;
                                        s7 = s6\<lparr>last_slack_status := Some slack_status\<rparr>
                                    in [s5, s6, s7] @
                                       (case stdout_write w of
                                          Some e \<Rightarrow> [record_error lib e s7]
                                        | None \<Rightarrow> [])))
                         else [])))))"

section \<open>A concrete library, configuration and world\<close>

text \<open>
  The library functions on the few arguments the examples below use, where they agree
  with Python; elsewhere the tables of \<open>demo_fromisoformat\<close>, \<open>demo_isoformat\<close>,
  \<open>demo_float_of_str\<close> and \<open>demo_str_exc\<close> give a fixed answer that no example reads.
  The instants: 63839664600000000 is 2024-01-01T00:10:00 UTC, 63839664540000000 one
  minute earlier, 63839664000000000 ten minutes earlier, 63839663700000000 fifteen.
\<close>

definition demo_fromisoformat :: "string \<Rightarrow> py_error + datetime" where
  "demo_fromisoformat s =
     (case map_of [(''2024-01-01T00:09:00+00:00'', Aware 63839664540000000 0),
                   (''2024-01-01T00:00:00+00:00'', Aware 63839664000000000 0),
                   (''2023-12-31T23:55:00+00:00'', Aware 63839663700000000 0)] s of
        None \<Rightarrow> Inl ValueError
      | Some d \<Rightarrow> Inr d)"

definition demo_isoformat :: "datetime \<Rightarrow> string" where
  "demo_isoformat d =
     (if d = Aware 63839664600000000 0 then ''2024-01-01T00:10:00+00:00''
      else if d = Aware 63839664540000000 0 then ''2024-01-01T00:09:00+00:00''
      else if d = Aware 63839664000000000 0 then ''2024-01-01T00:00:00+00:00''
      else if d = Aware 63839663700000000 0 then ''2023-12-31T23:55:00+00:00''
      else [])"

definition demo_float_of_str :: "string \<Rightarrow> pyfloat option" where
  "demo_float_of_str s =
     map_of [(''8'', Fin 8), (''9'', Fin 9), (''100'', Fin 100), (''8.5'', Fin (17 / 2)),
             (''-8.5'', Fin (- 17 / 2)), (''inf'', PInf), (''1e999'', PInf), (''nan'', NaN)] s"

text \<open>
  \<^verbatim>\<open>float(i)\<close> for an \<^verbatim>\<open>int\<close>: exact when \<open>i\<close> has at most 53 significant bits,
  otherwise rounded to 53 significant bits, to nearest with ties to even;
  \<^verbatim>\<open>OverflowError\<close> when the rounded magnitude reaches \<open>2 ^ 1024\<close>.
\<close>

fun bit_length :: "nat \<Rightarrow> nat" where
  "bit_length n = (if n = 0 then 0 else Suc (bit_length (n div 2)))"

declare bit_length.simps [simp del]

definition demo_float_of_int :: "int \<Rightarrow> pyfloat option" where
  "demo_float_of_int i =
     (let n = nat \<bar>i\<bar>; b = bit_length n
      in if b \<le> 53 then Some (Fin (of_int i))
         else
           (let k = b - 53;
                q = n div 2 ^ k;
                r = n mod 2 ^ k;
                h = 2 ^ (k - 1);
                q' = (if h < r \<or> (r = h \<and> odd q) then q + 1 else q);
                m = q' * 2 ^ k
            in if 2 ^ 1024 \<le> m then None
               else Some (Fin (of_int (sgn i * int m)))))"

definition demo_str_exc :: "py_error \<Rightarrow> string" where
  "demo_str_exc e =
     (case e of
        EnvError s \<Rightarrow> s
      | HTTPError code \<Rightarrow> str_int (int code) @ '' Error''
      | _ \<Rightarrow> [])"

definition demo_lib :: pylib where
  "demo_lib =
     \<lparr>fromisoformat = demo_fromisoformat,
      isoformat = demo_isoformat,
      float_of_str = demo_float_of_str,
      float_of_int = demo_float_of_int,
      str_exc = demo_str_exc,
      getenv = (\<lambda>k. None),
      sleep = (\<lambda>n. if n < 0 then Some ValueError else None)\<rparr>"

text \<open>Namespace \<^verbatim>\<open>demo\<close>, deployment \<^verbatim>\<open>payments-api\<close>, threshold 5, window 10 minutes.\<close>

definition demo_config :: config where
  "demo_config =
     \<lparr>namespace = ''demo'', target_deployment = ''payments-api'',
      loki_url = ''http://loki:3100'', error_threshold = 5, rollout_window_minutes = 10,
      poll_interval_seconds = 20, slack_webhook_url = None,
      loki_label_app = ''payments-api''\<rparr>"

definition hook_config :: config where
  "hook_config = demo_config\<lparr>slack_webhook_url := Some ''https://hooks.example/T0''\<rparr>"

definition ok_response :: "'a \<Rightarrow> 'a response" where
  "ok_response b = \<lparr>status_code = 200, json_body = Inr b\<rparr>"

text \<open>A query result with one series of two points, the latest with value \<open>v\<close>.\<close>

definition loki_payload :: "json \<Rightarrow> json" where
  "loki_payload v =
     JDict [(''status'', JStr ''success''),
            (''data'', JDict [(''resultType'', JStr ''matrix''),
                              (''result'', JList [JDict [(''metric'', JDict []),
                                 (''values'', JList [JList [JInt 1704067770, JStr ''3''],
                                                     JList [JInt 1704067800, v]])]])])]"

definition owned_replicaset :: "string \<Rightarrow> string \<Rightarrow> string \<Rightarrow> replicaset" where
  "owned_replicaset owner rv ts =
     \<lparr>metadata = Some
        \<lparr>ownerReferences = Some [\<lparr>ref_kind = Some ''Deployment'', ref_name = Some owner\<rparr>],
         annotations = Some [(''deployment.kubernetes.io/revision'', rv)],
         creationTimestamp = Some ts\<rparr>\<rparr>"

text \<open>
  Revision 7 of \<^verbatim>\<open>payments-api\<close>, created one minute before the clock readings, is
  the latest rollout; the error query returns 8; a delivery would succeed.
\<close>

definition demo_world :: world where
  "demo_world =
     \<lparr>token_file = Inr ''token'',
      kube_get = Inr (ok_response
        \<lparr>items = Some [owned_replicaset ''payments-api'' ''7'' ''2024-01-01T00:09:00Z'']\<rparr>),
      loki_get = Inr (ok_response (loki_payload (JStr ''8''))),
      slack_post = Inr 200,
      stdout_write = None,
      clock_fetch = 63839664600000000,
      clock_poll = 63839664600000000,
      clock_eval = 63839664600000000,
      clock_build = 63839664600000000\<rparr>"

text \<open>
  Four objects: revision 6 (older), revision 7 (latest), an object of another
  deployment whose timestamp is not a time, and revision 8 with the timestamp of
  revision 7.
\<close>

definition demo_replicasets :: "replicaset list" where
  "demo_replicasets =
     [owned_replicaset ''payments-api'' ''6'' ''2024-01-01T00:00:00Z'',
      owned_replicaset ''payments-api'' ''7'' ''2024-01-01T00:09:00Z'',
      owned_replicaset ''orders-api'' ''9'' ''yesterday'',
      owned_replicaset ''payments-api'' ''8'' ''2024-01-01T00:09:00Z'']"

text \<open>
  A state left by an earlier cycle, and variations of the world: one in which the
  deployment has no ReplicaSet, one in which its latest rollout is revision 6 (created
  exactly ten minutes before the clock readings), one in which the error query
  returns 9.
\<close>

definition earlier_state :: state where
  "earlier_state =
     \<lparr>last_poll_time = Some ''2024-01-01T00:09:40+00:00'', last_error_count = Some 3,
      last_rollout_revision = Some ''6'',
      last_rollout_time = Some ''2024-01-01T00:00:00+00:00'',
      last_incident_revision = None, last_incident = None, last_slack_status = None\<rparr>"

definition no_rollout_world :: world where
  "no_rollout_world = demo_world\<lparr>kube_get := Inr (ok_response \<lparr>items = Some []\<rparr>)\<rparr>"

definition revision_6_world :: world where
  "revision_6_world =
     demo_world\<lparr>kube_get := Inr (ok_response
       \<lparr>items = Some [owned_replicaset ''payments-api'' ''6'' ''2024-01-01T00:00:00Z'']\<rparr>)\<rparr>"

definition count_9_world :: world where
  "count_9_world = demo_world\<lparr>loki_get := Inr (ok_response (loki_payload (JStr ''9'')))\<rparr>"

section \<open>Basic facts\<close>

lemma bind_exc_simps [simp]:
  "bind_exc (Inl e) f = Inl e" "bind_exc (Inr v) f = f v"
  by (simp_all add: bind_exc_def)

lemma window_start_Inr:
  "window_start now cfg = Inr d \<Longrightarrow> d = Aware (now - rollout_window_minutes cfg * 60000000) 0"
  by (auto simp: window_start_def timedelta_minutes_def datetime_sub_def utc_now_def
      split: if_splits)

lemma demo_window_start:
  "window_start 63839664600000000 demo_config = Inr (Aware 63839664000000000 0)"
  by (simp add: window_start_def timedelta_minutes_def datetime_sub_def utc_now_def
      demo_config_def dt_max_def)

section \<open>Trigger evaluator: threshold and window boundaries\<close>

text \<open>
  Claim C2. For a configuration with threshold \<open>T\<close> whose window start is a
  representable time, and a rollout whose creation time \<open>t\<close> (timezone-aware, as an
  RFC3339 timestamp parses) lies inside the correlation window (\<open>now - t\<close> at most
  the window), the evaluator triggers if and only if the error
  count \<open>c\<close> satisfies \<open>T \<le> c\<close>, and returns no trigger if and only if \<open>c < T\<close>. It
  triggers at \<open>c = T\<close> and does not at \<open>c = T - 1\<close>.
\<close>

theorem trigger_threshold_boundary:
  assumes "window_start now cfg = Inr ws"
      and "now - t \<le> rollout_window_minutes cfg * 60000000"
  shows "(should_trigger_incident now cfg (Some (rv, Aware t off)) c
            = Inr (Some (rv, Aware t off))) = (error_threshold cfg \<le> c)
       \<and> (should_trigger_incident now cfg (Some (rv, Aware t off)) c = Inr None)
            = (c < error_threshold cfg)
       \<and> should_trigger_incident now cfg (Some (rv, Aware t off)) (error_threshold cfg)
            = Inr (Some (rv, Aware t off))
       \<and> should_trigger_incident now cfg (Some (rv, Aware t off)) (error_threshold cfg - 1)
            = Inr None"
  using assms window_start_Inr [OF assms(1)]
  by (auto simp: should_trigger_incident_def dt_lt_def)

theorem trigger_threshold_boundary_witness:
  "window_start 63839664600000000 demo_config = Inr (Aware 63839664000000000 0)
   \<and> (63839664600000000::int) - 63839664540000000
        \<le> rollout_window_minutes demo_config * 60000000
   \<and> should_trigger_incident 63839664600000000 demo_config
        (Some (''7'', Aware 63839664540000000 0)) 5
        = Inr (Some (''7'', Aware 63839664540000000 0))
   \<and> should_trigger_incident 63839664600000000 demo_config
        (Some (''7'', Aware 63839664540000000 0)) 4 = Inr None"
proof -
  have fresh: "(63839664600000000::int) - 63839664540000000
                 \<le> rollout_window_minutes demo_config * 60000000"
    by (simp add: demo_config_def)
  have T: "error_threshold demo_config = 5"
    by (simp add: demo_config_def)
  from trigger_threshold_boundary [OF demo_window_start fresh, of "''7''" 0 5]
    demo_window_start fresh T
  show ?thesis by simp
qed

text \<open>
  Claim C3. For a configuration whose window start is a representable time and an
  error count at or above the threshold, a rollout created at the timezone-aware
  time \<open>t\<close> triggers if and
  only if \<open>now - t\<close> is at most the window (in microseconds, the unit of the
  instants), and yields no trigger if and only if \<open>now - t\<close> exceeds it. A rollout
  created exactly at the window edge triggers.
\<close>

theorem trigger_window_boundary:
  assumes "window_start now cfg = Inr ws"
      and "error_threshold cfg \<le> c"
  shows "(should_trigger_incident now cfg (Some (rv, Aware t off)) c
            = Inr (Some (rv, Aware t off)))
           = (now - t \<le> rollout_window_minutes cfg * 60000000)
       \<and> (should_trigger_incident now cfg (Some (rv, Aware t off)) c = Inr None)
           = (rollout_window_minutes cfg * 60000000 < now - t)
       \<and> should_trigger_incident now cfg
            (Some (rv, Aware (now - rollout_window_minutes cfg * 60000000) off)) c
           = Inr (Some (rv, Aware (now - rollout_window_minutes cfg * 60000000) off))"
  using assms window_start_Inr [OF assms(1)]
  by (auto simp: should_trigger_incident_def dt_lt_def)

theorem trigger_window_boundary_witness:
  "window_start 63839664600000000 demo_config = Inr (Aware 63839664000000000 0)
   \<and> error_threshold demo_config \<le> 8
   \<and> should_trigger_incident 63839664600000000 demo_config
        (Some (''7'', Aware 63839664000000000 0)) 8
        = Inr (Some (''7'', Aware 63839664000000000 0))
   \<and> should_trigger_incident 63839664600000000 demo_config
        (Some (''7'', Aware 63839663999999999 0)) 8 = Inr None"
proof -
  have T: "error_threshold demo_config \<le> 8"
    by (simp add: demo_config_def)
  have W: "rollout_window_minutes demo_config = 10"
    by (simp add: demo_config_def)
  from trigger_window_boundary [OF demo_window_start T, of "''7''" 63839664000000000 0]
    trigger_window_boundary [OF demo_window_start T, of "''7''" 63839663999999999 0]
    demo_window_start T W
  show ?thesis by simp
qed

section \<open>The concrete library and world, evaluated\<close>

lemma demo_lib_sel [simp]:
  "fromisoformat demo_lib = demo_fromisoformat"
  "isoformat demo_lib = demo_isoformat"
  "float_of_str demo_lib = demo_float_of_str"
  "str_exc demo_lib = demo_str_exc"
  "getenv demo_lib = (\<lambda>k. None)"
  "sleep demo_lib 20 = None"
  by (simp_all add: demo_lib_def)

lemma demo_config_sel [simp]:
  "namespace demo_config = ''demo''"
  "target_deployment demo_config = ''payments-api''"
  "loki_url demo_config = ''http://loki:3100''"
  "error_threshold demo_config = 5"
  "rollout_window_minutes demo_config = 10"
  "poll_interval_seconds demo_config = 20"
  "slack_webhook_url demo_config = None"
  by (simp_all add: demo_config_def)

lemma hook_config_sel [simp]:
  "namespace hook_config = ''demo''"
  "target_deployment hook_config = ''payments-api''"
  "loki_url hook_config = ''http://loki:3100''"
  "error_threshold hook_config = 5"
  "rollout_window_minutes hook_config = 10"
  "poll_interval_seconds hook_config = 20"
  "slack_webhook_url hook_config = Some ''https://hooks.example/T0''"
  by (simp_all add: hook_config_def demo_config_def)

lemma demo_world_sel [simp]:
  "token_file demo_world = Inr ''token''"
  "kube_get demo_world = Inr (ok_response
      \<lparr>items = Some [owned_replicaset ''payments-api'' ''7'' ''2024-01-01T00:09:00Z'']\<rparr>)"
  "loki_get demo_world = Inr (ok_response (loki_payload (JStr ''8'')))"
  "slack_post demo_world = Inr 200"
  "stdout_write demo_world = None"
  "clock_fetch demo_world = 63839664600000000"
  "clock_poll demo_world = 63839664600000000"
  "clock_eval demo_world = 63839664600000000"
  "clock_build demo_world = 63839664600000000"
  by (simp_all add: demo_world_def)

lemma demo_parse:
  "parse_rfc3339 demo_lib ''2024-01-01T00:09:00Z'' = Inr (Aware 63839664540000000 0)"
  "parse_rfc3339 demo_lib ''2024-01-01T00:00:00Z'' = Inr (Aware 63839664000000000 0)"
  "parse_rfc3339 demo_lib ''2023-12-31T23:55:00Z'' = Inr (Aware 63839663700000000 0)"
  by (simp_all add: parse_rfc3339_def demo_fromisoformat_def)

lemma owned_replicaset_sel [simp]:
  "replica_owner_refs (owned_replicaset owner rv ts)
     = [\<lparr>ref_kind = Some ''Deployment'', ref_name = Some owner\<rparr>]"
  "replica_revision (owned_replicaset owner rv ts) = Some rv"
  "replica_created_at (owned_replicaset owner rv ts) = Some ts"
  by (simp_all add: owned_replicaset_def replica_owner_refs_def replica_revision_def
      replica_created_at_def replica_metadata_def)

lemma owned_by_single [simp]:
  "owned_by_deployment dep [\<lparr>ref_kind = Some ''Deployment'', ref_name = Some owner\<rparr>]
     = (owner = dep)"
  by (simp add: owned_by_deployment_def)

lemma kube_request_ok:
  assumes "token_file w = Inr tok" and "kube_get w = Inr (ok_response resp)"
  shows "kube_request lib w path = (Inr resp, [HttpGet (get_kube_api_base lib @ path) []])"
  using assms by (simp add: kube_request_def ok_response_def raise_for_status_def)

lemma fetch_rollout_single:
  assumes "token_file w = Inr tok"
      and "kube_get w = Inr (ok_response \<lparr>items = Some [owned_replicaset dep rv ts]\<rparr>)"
      and "parse_rfc3339 lib ts = Inr t" and "rv \<noteq> []" and "ts \<noteq> []"
  shows "fst (fetch_rollout_info lib w ns dep) = Inr (Some (rv, t))"
  using assms
  by (simp add: fetch_rollout_info_def kube_request_ok [OF assms(1,2)] rollout_step_def)

lemma demo_rollout:
  assumes "token_file w = token_file demo_world" and "kube_get w = kube_get demo_world"
  shows "fst (fetch_rollout_info demo_lib w ''demo'' ''payments-api'')
           = Inr (Some (''7'', Aware 63839664540000000 0))"
proof (rule fetch_rollout_single)
  show "token_file w = Inr ''token''" using assms by simp
  show "kube_get w = Inr (ok_response
      \<lparr>items = Some [owned_replicaset ''payments-api'' ''7'' ''2024-01-01T00:09:00Z'']\<rparr>)"
    using assms by simp
  show "parse_rfc3339 demo_lib ''2024-01-01T00:09:00Z'' = Inr (Aware 63839664540000000 0)"
    by (rule demo_parse)
qed simp_all

lemma loki_payload_count:
  "error_count_of lib (loki_payload v) =
     (case bind_exc (py_float lib v) py_int_of_float of
        Inl ValueError \<Rightarrow> Inr 0 | Inl e \<Rightarrow> Inl e | Inr n \<Rightarrow> Inr n)"
  by (simp add: error_count_of_def loki_payload_def py_seq_index_def)

lemma fetch_error_count_ok:
  assumes "loki_url cfg \<noteq> []" and "loki_get w = Inr (ok_response data)"
  shows "fst (fetch_error_count lib cfg w) = error_count_of lib data"
  using assms by (simp add: fetch_error_count_def ok_response_def raise_for_status_def Let_def)

lemma demo_error_count:
  assumes "loki_get w = Inr (ok_response (loki_payload (JStr ''8'')))"
  shows "fst (fetch_error_count demo_lib demo_config w) = Inr 8"
    and "fst (fetch_error_count demo_lib hook_config w) = Inr 8"
  using assms
  by (simp_all add: fetch_error_count_ok loki_payload_count demo_float_of_str_def
      py_int_of_float_def)

lemma demo_trigger:
  "should_trigger_incident 63839664600000000 demo_config
     (Some (''7'', Aware 63839664540000000 0)) 8 = Inr (Some (''7'', Aware 63839664540000000 0))"
  "should_trigger_incident 63839664600000000 hook_config
     (Some (''7'', Aware 63839664540000000 0)) 8 = Inr (Some (''7'', Aware 63839664540000000 0))"
  by (simp_all add: should_trigger_incident_def window_start_def timedelta_minutes_def
      datetime_sub_def utc_now_def dt_max_def dt_lt_def)

section \<open>Rollout fetch: the latest qualifying object\<close>

lemma latest_of_Nil [simp]: "latest_of [] = None"
  by (simp add: latest_of_def)

lemma latest_of_single [simp]: "latest_of [c] = Some c"
  by (simp add: latest_of_def is_latest_def)

lemma latest_of_later:
  assumes "instant (snd x) < instant (snd y)"
  shows "latest_of (x # y # cs) = latest_of (y # cs)"
proof -
  have "\<not> is_latest (x # y # cs) x"
    using assms by (simp add: is_latest_def)
  then have "latest_of (x # y # cs) = find (is_latest (x # y # cs)) (y # cs)"
    by (simp add: latest_of_def)
  also have "\<dots> = find (is_latest (y # cs)) (y # cs)"
    using assms by (intro find_cong) (auto simp: is_latest_def list_all_iff)
  finally show ?thesis by (simp only: latest_of_def)
qed

lemma latest_of_not_later:
  assumes "\<not> instant (snd x) < instant (snd y)"
  shows "latest_of (x # y # cs) = latest_of (x # cs)"
proof (cases "is_latest (x # y # cs) x")
  case True
  then have "is_latest (x # cs) x"
    by (simp add: is_latest_def)
  with True show ?thesis
    by (simp add: latest_of_def)
next
  case False
  with assms have nx: "\<not> is_latest (x # cs) x"
    by (auto simp: is_latest_def list_all_iff)
  from False assms have ny: "\<not> is_latest (x # y # cs) y"
    by (fastforce simp: is_latest_def list_all_iff)
  have "latest_of (x # y # cs) = find (is_latest (x # y # cs)) cs"
    using False ny by (simp add: latest_of_def)
  also have "\<dots> = find (is_latest (x # cs)) cs"
    using assms by (intro find_cong) (auto simp: is_latest_def list_all_iff)
  also have "\<dots> = latest_of (x # cs)"
    using nx by (simp add: latest_of_def)
  finally show ?thesis .
qed

lemma latest_of_Cons_Some: "\<exists>c. latest_of (x # cs) = Some c"
proof (induction cs arbitrary: x)
  case Nil
  show ?case by simp
next
  case (Cons y cs)
  show ?case
  proof (cases "instant (snd x) < instant (snd y)")
    case True
    then show ?thesis using Cons.IH [of y] by (simp add: latest_of_later)
  next
    case False
    then show ?thesis using Cons.IH [of x] by (simp add: latest_of_not_later)
  qed
qed

lemma latest_of_None_iff: "latest_of cs = None \<longleftrightarrow> cs = []"
proof (cases cs)
  case Nil
  then show ?thesis by simp
next
  case (Cons x xs)
  then show ?thesis using latest_of_Cons_Some [of x xs] by auto
qed

lemma latest_of_SomeD:
  assumes "latest_of cs = Some c"
  shows "c \<in> set cs" and "list_all (\<lambda>c'. instant (snd c') \<le> instant (snd c)) cs"
  using assms by (auto simp: latest_of_def find_Some_iff is_latest_def)

lemma candidates_Nil [simp]: "candidates lib dep [] = []"
  by (simp add: candidates_def map_filter_simps)

lemma candidates_Cons:
  "candidates lib dep (r # rs) =
     (case candidate lib dep r of
        None \<Rightarrow> candidates lib dep rs
      | Some c \<Rightarrow> c # candidates lib dep rs)"
  by (simp add: candidates_def map_filter_simps split: option.splits)

lemma rollout_step_skip:
  assumes "candidate lib dep r = None" and "qualifying dep r \<longrightarrow> well_formed lib r"
  shows "rollout_step lib dep r acc = Inr acc"
  using assms
  by (auto simp: rollout_step_def candidate_def qualifying_def well_formed_def
      split: option.splits sum.splits datetime.splits)

lemma rollout_step_candidate:
  assumes "candidate lib dep r = Some (rv, t)" and "well_formed lib r"
  shows "rv \<noteq> [] \<and> (\<exists>i off. t = Aware i off)
     \<and> rollout_step lib dep r acc =
         (case snd acc of
            None \<Rightarrow> Inr (Some rv, Some t)
          | Some latest_time \<Rightarrow>
              bind_exc (dt_gt t latest_time) (\<lambda>later.
                if later then Inr (Some rv, Some t) else Inr acc))"
  using assms
  by (auto simp: rollout_step_def candidate_def qualifying_def well_formed_def
      split: option.splits sum.splits datetime.splits if_splits)

lemma candidate_qualifying: "candidate lib dep r = Some c \<Longrightarrow> qualifying dep r"
  by (simp add: candidate_def split: if_splits)

lemma rollout_scan_from:
  assumes "\<forall>r \<in> set rs. qualifying dep r \<longrightarrow> well_formed lib r"
  shows "rollout_scan lib dep rs (Some rv0, Some (Aware i0 off0)) =
           Inr (case latest_of ((rv0, Aware i0 off0) # candidates lib dep rs) of
                  None \<Rightarrow> (None, None)
                | Some (rv, t) \<Rightarrow> (Some rv, Some t))"
  using assms
proof (induction rs arbitrary: rv0 i0 off0)
  case Nil
  show ?case by simp
next
  case (Cons r rs)
  show ?case
  proof (cases "candidate lib dep r")
    case None
    with Cons.prems have "rollout_step lib dep r (Some rv0, Some (Aware i0 off0))
        = Inr (Some rv0, Some (Aware i0 off0))"
      by (intro rollout_step_skip) simp_all
    with None Cons show ?thesis by (simp add: candidates_Cons)
  next
    case (Some c)
    obtain rv t where c: "c = (rv, t)" by (cases c)
    from Some Cons.prems have wf: "well_formed lib r"
      by (simp add: candidate_qualifying)
    from rollout_step_candidate [OF Some [unfolded c] wf, of "(Some rv0, Some (Aware i0 off0))"]
    obtain i off where t: "t = Aware i off"
      and step: "rollout_step lib dep r (Some rv0, Some (Aware i0 off0)) =
                   (if i0 < i then Inr (Some rv, Some t)
                    else Inr (Some rv0, Some (Aware i0 off0)))"
      by (auto simp: dt_gt_def dt_lt_def)
    show ?thesis
    proof (cases "i0 < i")
      case True
      then have "latest_of ((rv0, Aware i0 off0) # (rv, Aware i off) # candidates lib dep rs)
                   = latest_of ((rv, Aware i off) # candidates lib dep rs)"
        by (intro latest_of_later) (simp add: instant_def)
      with True step t c Some Cons show ?thesis
        by (simp add: candidates_Cons)
    next
      case False
      then have "latest_of ((rv0, Aware i0 off0) # (rv, Aware i off) # candidates lib dep rs)
                   = latest_of ((rv0, Aware i0 off0) # candidates lib dep rs)"
        by (intro latest_of_not_later) (simp add: instant_def)
      with False step t c Some Cons show ?thesis
        by (simp add: candidates_Cons)
    qed
  qed
qed

lemma rollout_scan_latest:
  assumes "\<forall>r \<in> set rs. qualifying dep r \<longrightarrow> well_formed lib r"
  shows "rollout_scan lib dep rs (None, None) =
           Inr (case latest_of (candidates lib dep rs) of
                  None \<Rightarrow> (None, None)
                | Some (rv, t) \<Rightarrow> (Some rv, Some t))"
  using assms
proof (induction rs)
  case Nil
  show ?case by simp
next
  case (Cons r rs)
  show ?case
  proof (cases "candidate lib dep r")
    case None
    with Cons.prems have "rollout_step lib dep r (None, None) = Inr (None, None)"
      by (intro rollout_step_skip) simp_all
    with None Cons show ?thesis by (simp add: candidates_Cons)
  next
    case (Some c)
    obtain rv t where c: "c = (rv, t)" by (cases c)
    from Some Cons.prems have wf: "well_formed lib r"
      by (simp add: candidate_qualifying)
    from rollout_step_candidate [OF Some [unfolded c] wf, of "(None, None)"]
    obtain i off where t: "t = Aware i off"
      and step: "rollout_step lib dep r (None, None) = Inr (Some rv, Some t)"
      by auto
    from Cons.prems have "\<forall>r \<in> set rs. qualifying dep r \<longrightarrow> well_formed lib r"
      by simp
    from rollout_scan_from [OF this, of rv i off] step t c Some show ?thesis
      by (simp add: candidates_Cons)
  qed
qed

lemma candidates_revision_nonempty:
  assumes "\<forall>r \<in> set rs. qualifying dep r \<longrightarrow> well_formed lib r"
      and "(rv, t) \<in> set (candidates lib dep rs)"
  shows "rv \<noteq> []"
  using assms
proof (induction rs)
  case Nil
  then show ?case by simp
next
  case (Cons r rs)
  show ?case
  proof (cases "candidate lib dep r")
    case None
    with Cons show ?thesis by (simp add: candidates_Cons)
  next
    case (Some c)
    with Cons.prems have "well_formed lib r"
      by (simp add: candidate_qualifying)
    with Some Cons show ?thesis
      using rollout_step_candidate [of lib dep r "fst c" "snd c" "(None, None)"]
      by (auto simp: candidates_Cons)
  qed
qed

lemma candidates_empty_iff:
  assumes "\<forall>r \<in> set rs. qualifying dep r \<longrightarrow> well_formed lib r"
  shows "candidates lib dep rs = [] \<longleftrightarrow> \<not> list_ex (qualifying dep) rs"
  using assms
proof (induction rs)
  case Nil
  show ?case by simp
next
  case (Cons r rs)
  then show ?case
    by (auto simp: candidates_Cons candidate_def qualifying_def well_formed_def
        split: option.splits sum.splits datetime.splits)
qed

text \<open>
  Claim C7. When the rollout source answers with a list of objects, each qualifying
  one well-formed, the rollout fetch returns what the specification selects: among
  the objects owned by the named deployment that carry both a revision annotation and
  a creation timestamp, the (revision, creation time) of the first one, in the order
  of the list, that none of them is later than. The objects that do not qualify are
  not looked at (nothing is assumed of them). The fetch returns nothing exactly when
  no object qualifies.
\<close>

theorem fetch_rollout_latest:
  assumes "kube_request lib w (''/apis/apps/v1/namespaces/'' @ ns @ ''/replicasets'')
             = (Inr resp, ev)"
      and "\<forall>r \<in> set (replicas_of resp). qualifying dep r \<longrightarrow> well_formed lib r"
  shows "fetch_rollout_info lib w ns dep
           = (Inr (latest_of (candidates lib dep (replicas_of resp))), ev)
       \<and> (latest_of (candidates lib dep (replicas_of resp)) = None)
           = (\<not> list_ex (qualifying dep) (replicas_of resp))
       \<and> (case latest_of (candidates lib dep (replicas_of resp)) of
            None \<Rightarrow> True
          | Some c \<Rightarrow>
              c \<in> set (candidates lib dep (replicas_of resp))
              \<and> list_all (\<lambda>c'. instant (snd c') \<le> instant (snd c))
                   (candidates lib dep (replicas_of resp)))"
proof -
  let ?cs = "candidates lib dep (replicas_of resp)"
  have scan: "rollout_scan lib dep (replicas_of resp) (None, None) =
           Inr (case latest_of ?cs of None \<Rightarrow> (None, None) | Some (rv, t) \<Rightarrow> (Some rv, Some t))"
    using assms(2) by (rule rollout_scan_latest)
  have ne: "rv \<noteq> []" if "latest_of ?cs = Some (rv, t)" for rv t
    using candidates_revision_nonempty [OF assms(2)] latest_of_SomeD(1) [OF that] by blast
  have "fetch_rollout_info lib w ns dep = (Inr (latest_of ?cs), ev)"
  proof (cases "latest_of ?cs")
    case None
    with scan assms(1) show ?thesis
      by (simp add: fetch_rollout_info_def replicas_of_def [symmetric])
  next
    case (Some c)
    obtain rv t where c: "c = (rv, t)" by (cases c)
    with Some ne have "rv \<noteq> []" by simp
    with scan assms(1) Some c show ?thesis
      by (simp add: fetch_rollout_info_def replicas_of_def [symmetric])
  qed
  moreover have "(latest_of ?cs = None) = (\<not> list_ex (qualifying dep) (replicas_of resp))"
    using candidates_empty_iff [OF assms(2)] by (simp add: latest_of_None_iff)
  moreover have "case latest_of ?cs of None \<Rightarrow> True
      | Some c \<Rightarrow> c \<in> set ?cs \<and> list_all (\<lambda>c'. instant (snd c') \<le> instant (snd c)) ?cs"
    using latest_of_SomeD [of ?cs] by (simp split: option.splits)
  ultimately show ?thesis by simp
qed

lemma demo_candidates:
  "candidates demo_lib ''payments-api'' demo_replicasets =
     [(''6'', Aware 63839664000000000 0), (''7'', Aware 63839664540000000 0),
      (''8'', Aware 63839664540000000 0)]"
  by (simp add: demo_replicasets_def candidates_Cons candidate_def qualifying_def demo_parse)

theorem fetch_rollout_latest_witness:
  "fetch_rollout_info demo_lib
      (demo_world\<lparr>kube_get := Inr (ok_response \<lparr>items = Some demo_replicasets\<rparr>)\<rparr>)
      ''demo'' ''payments-api''
     = (Inr (Some (''7'', Aware 63839664540000000 0)),
        [HttpGet ''https://kubernetes.default.svc:443/apis/apps/v1/namespaces/demo/replicasets''
           []])
   \<and> list_ex (qualifying ''payments-api'') demo_replicasets
   \<and> list_all (\<lambda>r. \<not> qualifying ''payments-api'' r \<or> well_formed demo_lib r) demo_replicasets"
proof -
  let ?w = "demo_world\<lparr>kube_get := Inr (ok_response \<lparr>items = Some demo_replicasets\<rparr>)\<rparr>"
  let ?ev = "[HttpGet
     ''https://kubernetes.default.svc:443/apis/apps/v1/namespaces/demo/replicasets'' []]"
  have req: "kube_request demo_lib ?w (''/apis/apps/v1/namespaces/'' @ ''demo'' @ ''/replicasets'')
               = (Inr \<lparr>items = Some demo_replicasets\<rparr>, ?ev)"
    by (simp add: kube_request_ok [where tok = "''token''"] get_kube_api_base_def)
  have rs: "replicas_of \<lparr>items = Some demo_replicasets\<rparr> = demo_replicasets"
    by (simp add: replicas_of_def)
  have wf: "list_all (\<lambda>r. \<not> qualifying ''payments-api'' r \<or> well_formed demo_lib r)
              demo_replicasets"
    by (simp add: demo_replicasets_def qualifying_def well_formed_def demo_parse)
  then have wf': "\<forall>r \<in> set (replicas_of \<lparr>items = Some demo_replicasets\<rparr>).
      qualifying ''payments-api'' r \<longrightarrow> well_formed demo_lib r"
    unfolding rs by (auto simp: list_all_iff)
  have latest: "latest_of (candidates demo_lib ''payments-api'' demo_replicasets)
                  = Some (''7'', Aware 63839664540000000 0)"
    by (simp add: demo_candidates latest_of_def is_latest_def instant_def)
  have q: "list_ex (qualifying ''payments-api'') demo_replicasets"
    by (simp add: demo_replicasets_def qualifying_def)
  from fetch_rollout_latest [OF req wf'] latest q wf show ?thesis
    by (simp add: rs)
qed

section \<open>Notifier\<close>

lemma send_slack_unconfigured:
  "\<not> configured webhook \<Longrightarrow>
     send_slack_notification webhook inc w = (Inr ''skipped (no webhook configured)'', [])"
  by (auto simp: send_slack_notification_def configured_def split: option.splits)

lemma send_slack_configured:
  "configured webhook \<Longrightarrow>
     send_slack_notification webhook inc w =
       ((case delivery_error w of
           Some e \<Rightarrow> Inl e
         | None \<Rightarrow> (case slack_post w of
                       Inr code \<Rightarrow> Inr (''sent ('' @ str_int (int code) @ '')'')
                     | Inl e \<Rightarrow> Inl e)),
        [HttpPost (case webhook of Some url \<Rightarrow> url | None \<Rightarrow> []) (format_slack_message inc)])"
  by (auto simp: send_slack_notification_def configured_def delivery_error_def Let_def
      split: option.splits sum.splits)

text \<open>
  Claim C8. Whatever the incident and the world, the notifier returns the outcome
  \<^verbatim>\<open>skipped (no webhook configured)\<close> if and only if no endpoint is configured (the
  webhook is \<^verbatim>\<open>None\<close> or empty), and it makes no network call if and only if no
  endpoint is configured: in the skipped case nothing is posted.
\<close>

theorem skipped_iff_unconfigured:
  "(fst (send_slack_notification webhook inc w) = Inr ''skipped (no webhook configured)'')
      = (webhook = None \<or> webhook = Some [])
   \<and> (snd (send_slack_notification webhook inc w) = [])
      = (webhook = None \<or> webhook = Some [])"
  by (cases webhook; cases "slack_post w")
     (auto simp: send_slack_notification_def Let_def)

section \<open>Error-count fetch\<close>

lemma fetch_error_count_unconfigured:
  "loki_url cfg = [] \<Longrightarrow> fetch_error_count lib cfg w = (Inr 0, [])"
  by (simp add: fetch_error_count_def)

lemma error_count_no_series:
  assumes "py_get data ''data'' (JDict []) = Inr d"
      and "py_get d ''result'' (JList []) = Inr results"
      and "\<not> py_truthy results"
  shows "error_count_of lib data = Inr 0"
  using assms by (simp add: error_count_of_def)

lemma error_count_no_values:
  assumes "py_get data ''data'' (JDict []) = Inr d"
      and "py_get d ''result'' (JList []) = Inr (JList (series # others))"
      and "py_get series ''values'' (JList []) = Inr vals"
      and "\<not> py_truthy vals"
  shows "error_count_of lib data = Inr 0"
  using assms by (simp add: error_count_of_def py_seq_index_def)

lemma py_seq_index_last: "xs \<noteq> [] \<Longrightarrow> py_seq_index xs (- 1) = Inr (last xs)"
  by (cases xs rule: rev_cases) (auto simp: py_seq_index_def nth_append)

lemma error_count_latest:
  assumes "py_get data ''data'' (JDict []) = Inr d"
      and "py_get d ''result'' (JList []) = Inr (JList (series # others))"
      and "py_get series ''values'' (JList []) = Inr (JList vals)"
      and "vals \<noteq> []"
      and "last vals = JList [ts, v]"
  shows "error_count_of lib data =
           (case bind_exc (py_float lib v) py_int_of_float of
              Inl ValueError \<Rightarrow> Inr 0 | Inl e \<Rightarrow> Inl e | Inr n \<Rightarrow> Inr n)"
proof -
  have point: "py_index (JList vals) (- 1) = Inr (JList [ts, v])"
    using assms(4,5) by (simp add: py_seq_index_last)
  have first: "py_index (JList (series # others)) 0 = Inr series"
    by (simp add: py_seq_index_def)
  have latest: "py_index (JList [ts, v]) 1 = Inr v"
    by (simp add: py_seq_index_def)
  from assms(4) have truthy: "py_truthy (JList vals)" "py_truthy (JList (series # others))"
    by simp_all
  show ?thesis
    unfolding error_count_of_def
    by (simp only: assms(1,2,3) bind_exc_simps point first latest truthy not_True_eq_False
        if_False)
qed

text \<open>
  Claim C6. The fetch returns 0 for an unconfigured source, for an empty result and
  for an empty series (lemmas \<open>fetch_error_count_unconfigured\<close>,
  \<open>error_count_no_series\<close>, \<open>error_count_no_values\<close>), and otherwise the latest value of
  the first series, truncated toward zero (\<open>error_count_latest\<close>). A latest value for
  which \<^verbatim>\<open>int(float(v))\<close> raises \<^verbatim>\<open>ValueError\<close> (\<^verbatim>\<open>oops\<close>, \<^verbatim>\<open>nan\<close>) gives 0.
  But only \<^verbatim>\<open>ValueError\<close> is caught: a value that is \<^verbatim>\<open>null\<close> raises
  \<^verbatim>\<open>TypeError\<close>, and a value that \<^verbatim>\<open>float\<close> reads as an infinity (\<^verbatim>\<open>inf\<close>,
  \<^verbatim>\<open>1e999\<close>) raises \<^verbatim>\<open>OverflowError\<close>, out of the fetch.
\<close>

theorem malformed_value_raises:
  "error_count_of lib (loki_payload JNull) = Inl TypeError
   \<and> error_count_of lib (loki_payload (JFloat PInf)) = Inl OverflowError
   \<and> fst (fetch_error_count demo_lib demo_config
        (demo_world\<lparr>loki_get := Inr (ok_response (loki_payload (JStr ''inf'')))\<rparr>))
       = Inl OverflowError
   \<and> fst (fetch_error_count demo_lib demo_config
        (demo_world\<lparr>loki_get := Inr (ok_response (loki_payload (JStr ''1e999'')))\<rparr>))
       = Inl OverflowError
   \<and> fst (fetch_error_count demo_lib demo_config
        (demo_world\<lparr>loki_get := Inr (ok_response (loki_payload JNull))\<rparr>))
       = Inl TypeError
   \<and> fst (fetch_error_count demo_lib demo_config
        (demo_world\<lparr>loki_get := Inr (ok_response (loki_payload (JStr ''nan'')))\<rparr>))
       = Inr 0
   \<and> fst (fetch_error_count demo_lib demo_config
        (demo_world\<lparr>loki_get := Inr (ok_response (loki_payload (JStr ''oops'')))\<rparr>))
       = Inr 0"
  by (simp add: fetch_error_count_ok loki_payload_count demo_float_of_str_def
      py_int_of_float_def)

section \<open>One poll cycle, case by case\<close>

lemma kube_request_events: "list_all is_get (snd (kube_request lib w path))"
  by (auto simp: kube_request_def Let_def split: sum.splits option.splits)

lemma fetch_rollout_events: "list_all is_get (snd (fetch_rollout_info lib w ns dep))"
  using kube_request_events [of lib w "''/apis/apps/v1/namespaces/'' @ ns @ ''/replicasets''"]
  by (auto simp: fetch_rollout_info_def split: prod.splits sum.splits option.splits if_splits)

lemma fetch_error_events: "list_all is_get (snd (fetch_error_count lib cfg w))"
  by (auto simp: fetch_error_count_def Let_def split: sum.splits option.splits)

lemma send_slack_events: "list_all is_post (snd (send_slack_notification webhook inc w))"
  by (cases "configured webhook") (simp_all add: send_slack_unconfigured send_slack_configured)

lemma get_events_filter:
  "list_all is_get ev \<Longrightarrow>
     filter is_built ev = [] \<and> filter is_notify ev = [] \<and> filter is_stdout ev = []
     \<and> filter is_post ev = []"
proof (induction ev)
  case Nil
  show ?case by simp
next
  case (Cons e es)
  then show ?case by (cases e) simp_all
qed

lemma post_events_filter:
  "list_all is_post ev \<Longrightarrow>
     filter is_built ev = [] \<and> filter is_notify ev = [] \<and> filter is_stdout ev = []"
proof (induction ev)
  case Nil
  show ?case by simp
next
  case (Cons e es)
  then show ?case by (cases e) simp_all
qed

lemmas fetch_events_filter [simp] =
  get_events_filter [OF fetch_rollout_events] get_events_filter [OF fetch_error_events]
  post_events_filter [OF send_slack_events]

lemma should_trigger_SomeD:
  "should_trigger_incident now cfg rollout ec = Inr (Some x) \<Longrightarrow> rollout = Some x"
  by (auto simp: should_trigger_incident_def bind_exc_def
      split: option.splits sum.splits if_splits prod.splits)

lemma triggers_on_unfold:
  "triggers_on lib cfg R w \<longleftrightarrow>
     (\<exists>rtime ec.
        fst (fetch_rollout_info lib w (namespace cfg) (target_deployment cfg))
          = Inr (Some (R, rtime))
        \<and> fst (fetch_error_count lib cfg w) = Inr ec
        \<and> should_trigger_incident (clock_eval w) cfg (Some (R, rtime)) ec
            = Inr (Some (R, rtime)))"
proof (cases "fst (fetch_rollout_info lib w (namespace cfg) (target_deployment cfg))")
  case (Inl e)
  then show ?thesis by (simp add: triggers_on_def)
next
  case (Inr rollout)
  show ?thesis
  proof (cases rollout)
    case None
    with Inr show ?thesis by (simp add: triggers_on_def)
  next
    case (Some x)
    obtain rv rtime where x: "x = (rv, rtime)" by (cases x)
    show ?thesis
    proof (cases "fst (fetch_error_count lib cfg w)")
      case (Inl e)
      with Inr Some x show ?thesis by (simp add: triggers_on_def)
    next
      case ec: (Inr ec)
      with Inr Some x show ?thesis by (auto simp: triggers_on_def)
    qed
  qed
qed

lemma triggers_onD:
  assumes "triggers_on lib cfg R w"
  obtains rtime ec where
    "fst (fetch_rollout_info lib w (namespace cfg) (target_deployment cfg))
       = Inr (Some (R, rtime))"
    "fst (fetch_error_count lib cfg w) = Inr ec"
    "should_trigger_incident (clock_eval w) cfg (Some (R, rtime)) ec = Inr (Some (R, rtime))"
  using assms unfolding triggers_on_unfold by blast

lemma poll_cycle_rollout_fails:
  assumes "fst (fetch_rollout_info lib w (namespace cfg) (target_deployment cfg)) = Inl e"
  shows "poll_cycle lib cfg st w =
           (record_error lib e st,
            snd (fetch_rollout_info lib w (namespace cfg) (target_deployment cfg)))"
  using assms
  by (cases "fetch_rollout_info lib w (namespace cfg) (target_deployment cfg)")
     (simp add: poll_cycle_def)

lemma poll_cycle_error_fetch_fails:
  assumes "fst (fetch_rollout_info lib w (namespace cfg) (target_deployment cfg)) = Inr rollout"
      and "fst (fetch_error_count lib cfg w) = Inl e"
  shows "poll_cycle lib cfg st w =
           (record_error lib e st,
            snd (fetch_rollout_info lib w (namespace cfg) (target_deployment cfg))
            @ snd (fetch_error_count lib cfg w))"
  using assms
  by (cases "fetch_rollout_info lib w (namespace cfg) (target_deployment cfg)";
      cases "fetch_error_count lib cfg w")
     (simp add: poll_cycle_def)

lemma poll_cycle_no_trigger:
  assumes "fst (fetch_rollout_info lib w (namespace cfg) (target_deployment cfg)) = Inr rollout"
      and "fst (fetch_error_count lib cfg w) = Inr ec"
      and "should_trigger_incident (clock_eval w) cfg rollout ec = Inr None"
  shows "poll_cycle lib cfg st w =
           (observed lib st w ec rollout,
            snd (fetch_rollout_info lib w (namespace cfg) (target_deployment cfg))
            @ snd (fetch_error_count lib cfg w))"
  using assms
  by (cases "fetch_rollout_info lib w (namespace cfg) (target_deployment cfg)";
      cases "fetch_error_count lib cfg w")
     (simp add: poll_cycle_def observed_def split: option.splits)

lemma observed_incident_fields [simp]:
  "last_incident_revision (observed lib st w ec rollout) = last_incident_revision st"
  "last_incident (observed lib st w ec rollout) = last_incident st"
  "last_slack_status (observed lib st w ec rollout) = last_slack_status st"
  "last_poll_time (observed lib st w ec rollout) = Some (isoformat lib (utc_now (clock_poll w)))"
  "last_error_count (observed lib st w ec rollout) = Some ec"
  by (simp_all add: observed_def split: option.splits)

lemma observed_rollout_fields [simp]:
  "last_rollout_revision (observed lib st w ec None) = last_rollout_revision st"
  "last_rollout_time (observed lib st w ec None) = last_rollout_time st"
  "last_rollout_revision (observed lib st w ec (Some (rv, rtime))) = Some rv"
  "last_rollout_time (observed lib st w ec (Some (rv, rtime))) = Some (isoformat lib rtime)"
  by (simp_all add: observed_def)

lemma record_error_fields [simp]:
  "last_slack_status (record_error lib e st) = Some (''error: '' @ str_exc lib e)"
  "last_poll_time (record_error lib e st) = last_poll_time st"
  "last_error_count (record_error lib e st) = last_error_count st"
  "last_rollout_revision (record_error lib e st) = last_rollout_revision st"
  "last_rollout_time (record_error lib e st) = last_rollout_time st"
  "last_incident_revision (record_error lib e st) = last_incident_revision st"
  "last_incident (record_error lib e st) = last_incident st"
  by (simp_all add: record_error_def)

lemma poll_cycle_deduplicated:
  assumes "fst (fetch_rollout_info lib w (namespace cfg) (target_deployment cfg))
             = Inr (Some (rv, rtime))"
      and "fst (fetch_error_count lib cfg w) = Inr ec"
      and "should_trigger_incident (clock_eval w) cfg (Some (rv, rtime)) ec
             = Inr (Some (rv, rtime))"
      and "last_incident_revision st = Some rv"
  shows "poll_cycle lib cfg st w =
           (observed lib st w ec (Some (rv, rtime)),
            snd (fetch_rollout_info lib w (namespace cfg) (target_deployment cfg))
            @ snd (fetch_error_count lib cfg w))"
  using assms
  by (cases "fetch_rollout_info lib w (namespace cfg) (target_deployment cfg)";
      cases "fetch_error_count lib cfg w")
     (simp add: poll_cycle_def observed_def)

lemma poll_cycle_delivery_fails:
  assumes "fst (fetch_rollout_info lib w (namespace cfg) (target_deployment cfg))
             = Inr (Some (rv, rtime))"
      and "fst (fetch_error_count lib cfg w) = Inr ec"
      and "should_trigger_incident (clock_eval w) cfg (Some (rv, rtime)) ec
             = Inr (Some (rv, rtime))"
      and "last_incident_revision st \<noteq> Some rv"
      and "fst (send_slack_notification (slack_webhook_url cfg)
             (build_incident lib (clock_build w) cfg rv rtime ec) w) = Inl e"
  shows "poll_cycle lib cfg st w =
           (record_error lib e (observed lib st w ec (Some (rv, rtime))),
            snd (fetch_rollout_info lib w (namespace cfg) (target_deployment cfg))
            @ snd (fetch_error_count lib cfg w)
            @ [Built (build_incident lib (clock_build w) cfg rv rtime ec),
               Notify (build_incident lib (clock_build w) cfg rv rtime ec)]
            @ snd (send_slack_notification (slack_webhook_url cfg)
                 (build_incident lib (clock_build w) cfg rv rtime ec) w))"
  using assms
  by (cases "fetch_rollout_info lib w (namespace cfg) (target_deployment cfg)";
      cases "fetch_error_count lib cfg w";
      cases "send_slack_notification (slack_webhook_url cfg)
        (build_incident lib (clock_build w) cfg rv rtime ec) w")
     (simp add: poll_cycle_def observed_def Let_def)

lemma poll_cycle_emits:
  assumes "fst (fetch_rollout_info lib w (namespace cfg) (target_deployment cfg))
             = Inr (Some (rv, rtime))"
      and "fst (fetch_error_count lib cfg w) = Inr ec"
      and "should_trigger_incident (clock_eval w) cfg (Some (rv, rtime)) ec
             = Inr (Some (rv, rtime))"
      and "last_incident_revision st \<noteq> Some rv"
      and "fst (send_slack_notification (slack_webhook_url cfg)
             (build_incident lib (clock_build w) cfg rv rtime ec) w) = Inr status"
      and "stdout_write w = None"
  shows "poll_cycle lib cfg st w =
           ((observed lib st w ec (Some (rv, rtime)))
              \<lparr>last_incident_revision := Some rv,
               last_incident := Some (build_incident lib (clock_build w) cfg rv rtime ec),
               last_slack_status := Some status\<rparr>,
            snd (fetch_rollout_info lib w (namespace cfg) (target_deployment cfg))
            @ snd (fetch_error_count lib cfg w)
            @ [Built (build_incident lib (clock_build w) cfg rv rtime ec),
               Notify (build_incident lib (clock_build w) cfg rv rtime ec)]
            @ snd (send_slack_notification (slack_webhook_url cfg)
                 (build_incident lib (clock_build w) cfg rv rtime ec) w)
            @ [Stdout (build_incident lib (clock_build w) cfg rv rtime ec)])"
  using assms
  by (cases "fetch_rollout_info lib w (namespace cfg) (target_deployment cfg)";
      cases "fetch_error_count lib cfg w";
      cases "send_slack_notification (slack_webhook_url cfg)
        (build_incident lib (clock_build w) cfg rv rtime ec) w")
     (simp add: poll_cycle_def observed_def Let_def)

lemma poll_cycle_stdout_fails:
  assumes "fst (fetch_rollout_info lib w (namespace cfg) (target_deployment cfg))
             = Inr (Some (rv, rtime))"
      and "fst (fetch_error_count lib cfg w) = Inr ec"
      and "should_trigger_incident (clock_eval w) cfg (Some (rv, rtime)) ec
             = Inr (Some (rv, rtime))"
      and "last_incident_revision st \<noteq> Some rv"
      and "fst (send_slack_notification (slack_webhook_url cfg)
             (build_incident lib (clock_build w) cfg rv rtime ec) w) = Inr status"
      and "stdout_write w = Some e"
  shows "poll_cycle lib cfg st w =
           (record_error lib e
              ((observed lib st w ec (Some (rv, rtime)))
                 \<lparr>last_incident_revision := Some rv,
                  last_incident := Some (build_incident lib (clock_build w) cfg rv rtime ec),
                  last_slack_status := Some status\<rparr>),
            snd (fetch_rollout_info lib w (namespace cfg) (target_deployment cfg))
            @ snd (fetch_error_count lib cfg w)
            @ [Built (build_incident lib (clock_build w) cfg rv rtime ec),
               Notify (build_incident lib (clock_build w) cfg rv rtime ec)]
            @ snd (send_slack_notification (slack_webhook_url cfg)
                 (build_incident lib (clock_build w) cfg rv rtime ec) w))"
  using assms
  by (cases "fetch_rollout_info lib w (namespace cfg) (target_deployment cfg)";
      cases "fetch_error_count lib cfg w";
      cases "send_slack_notification (slack_webhook_url cfg)
        (build_incident lib (clock_build w) cfg rv rtime ec) w")
     (simp add: poll_cycle_def observed_def Let_def)

lemma build_incident_sel [simp]:
  "revision (build_incident lib now cfg rv rtime ec) = rv"
  "incident_id (build_incident lib now cfg rv rtime ec)
     = namespace cfg @ '':'' @ target_deployment cfg @ '':'' @ rv"
  "error_count (build_incident lib now cfg rv rtime ec) = ec"
  by (simp_all add: build_incident_def)

lemma send_slack_fails:
  assumes "configured webhook" and "delivery_error w = Some e"
  shows "fst (send_slack_notification webhook inc w) = Inl e"
  using assms by (simp add: send_slack_configured)

lemma send_slack_returns:
  assumes "configured webhook \<longrightarrow> delivery_error w = None"
  shows "\<exists>status. fst (send_slack_notification webhook inc w) = Inr status"
  using assms
  by (cases "configured webhook")
     (auto simp: send_slack_unconfigured send_slack_configured delivery_error_def
        split: sum.splits if_splits)


section \<open>The concrete world, cycle by cycle\<close>

lemma demo_triggers:
  assumes "token_file w = token_file demo_world" and "kube_get w = kube_get demo_world"
      and "loki_get w = loki_get demo_world" and "clock_eval w = clock_eval demo_world"
  shows "triggers_on demo_lib demo_config ''7'' w"
    and "triggers_on demo_lib hook_config ''7'' w"
    and "fst (fetch_rollout_info demo_lib w (namespace hook_config) (target_deployment hook_config))
           = Inr (Some (''7'', Aware 63839664540000000 0))"
    and "fst (fetch_error_count demo_lib hook_config w) = Inr 8"
    and "fst (fetch_rollout_info demo_lib w (namespace demo_config) (target_deployment demo_config))
           = Inr (Some (''7'', Aware 63839664540000000 0))"
    and "fst (fetch_error_count demo_lib demo_config w) = Inr 8"
proof -
  have r: "fst (fetch_rollout_info demo_lib w ''demo'' ''payments-api'')
             = Inr (Some (''7'', Aware 63839664540000000 0))"
    using assms(1,2) by (rule demo_rollout)
  have e: "fst (fetch_error_count demo_lib demo_config w) = Inr 8"
    "fst (fetch_error_count demo_lib hook_config w) = Inr 8"
    using assms(3) by (simp_all add: demo_error_count)
  show "triggers_on demo_lib demo_config ''7'' w" "triggers_on demo_lib hook_config ''7'' w"
    unfolding triggers_on_unfold using r e assms(4) demo_trigger by auto
  show "fst (fetch_rollout_info demo_lib w (namespace hook_config) (target_deployment hook_config))
           = Inr (Some (''7'', Aware 63839664540000000 0))"
    "fst (fetch_rollout_info demo_lib w (namespace demo_config) (target_deployment demo_config))
           = Inr (Some (''7'', Aware 63839664540000000 0))"
    using r by simp_all
  show "fst (fetch_error_count demo_lib hook_config w) = Inr 8"
    "fst (fetch_error_count demo_lib demo_config w) = Inr 8"
    using e by simp_all
qed

section \<open>Delivery failure: the failing cycle\<close>

lemma delivery_failure_cycle:
  assumes "triggers_on lib cfg R w" and "last_incident_revision st \<noteq> Some R"
      and "configured (slack_webhook_url cfg)" and "delivery_error w = Some e"
  shows "\<exists>rtime ec inc url body.
           poll_cycle lib cfg st w =
             (record_error lib e (observed lib st w ec (Some (R, rtime))),
              snd (fetch_rollout_info lib w (namespace cfg) (target_deployment cfg))
              @ snd (fetch_error_count lib cfg w)
              @ [Built inc, Notify inc, HttpPost url body])"
proof -
  from assms(1) obtain rtime ec where
    r: "fst (fetch_rollout_info lib w (namespace cfg) (target_deployment cfg))
          = Inr (Some (R, rtime))"
    and c: "fst (fetch_error_count lib cfg w) = Inr ec"
    and t: "should_trigger_incident (clock_eval w) cfg (Some (R, rtime)) ec
              = Inr (Some (R, rtime))"
    by (rule triggers_onD)
  let ?inc = "build_incident lib (clock_build w) cfg R rtime ec"
  have s: "fst (send_slack_notification (slack_webhook_url cfg) ?inc w) = Inl e"
    using assms(3,4) by (rule send_slack_fails)
  from poll_cycle_delivery_fails [OF r c t assms(2) s] assms(3) show ?thesis
    by (simp add: send_slack_configured) blast
qed

lemma demo_delivery_500:
  "delivery_error (demo_world\<lparr>slack_post := Inr 500\<rparr>) = Some (HTTPError 500)"
  by (simp add: delivery_error_def)

lemma demo_delivery_timeout:
  "delivery_error (demo_world\<lparr>slack_post := Inl (EnvError ''Read timed out.'')\<rparr>)
     = Some (EnvError ''Read timed out.'')"
  by (simp add: delivery_error_def)

lemma hook_configured: "configured (slack_webhook_url hook_config)"
  by (simp add: configured_def)

lemma initial_state_sel [simp]:
  "last_poll_time initial_state = None"
  "last_error_count initial_state = None"
  "last_rollout_revision initial_state = None"
  "last_rollout_time initial_state = None"
  "last_incident_revision initial_state = None"
  "last_incident initial_state = None"
  "last_slack_status initial_state = None"
  by (simp_all add: initial_state_def)

section \<open>A cycle that finds no rollout\<close>

text \<open>
  Claim C10, as amended. In a cycle whose rollout fetch returns nothing,
  \<^verbatim>\<open>last_rollout_revision\<close> and \<^verbatim>\<open>last_rollout_time\<close> keep their values. When the
  error-count fetch also returns, \<^verbatim>\<open>last_poll_time\<close> and \<^verbatim>\<open>last_error_count\<close> are
  set to this cycle's values and no other field changes; when it raises, they keep
  their values too and \<^verbatim>\<open>last_slack_status\<close> is the only field of the state that
  changes.
\<close>

theorem no_rollout_keeps_rollout_fields:
  assumes "fst (fetch_rollout_info lib w (namespace cfg) (target_deployment cfg)) = Inr None"
  shows "last_rollout_revision (fst (poll_cycle lib cfg st w)) = last_rollout_revision st
       \<and> last_rollout_time (fst (poll_cycle lib cfg st w)) = last_rollout_time st
       \<and> (case fst (fetch_error_count lib cfg w) of
            Inr ec \<Rightarrow>
              last_poll_time (fst (poll_cycle lib cfg st w))
                = Some (isoformat lib (utc_now (clock_poll w)))
              \<and> last_error_count (fst (poll_cycle lib cfg st w)) = Some ec
              \<and> fst (poll_cycle lib cfg st w)
                  = st\<lparr>last_poll_time := Some (isoformat lib (utc_now (clock_poll w))),
                       last_error_count := Some ec\<rparr>
          | Inl e \<Rightarrow>
              last_poll_time (fst (poll_cycle lib cfg st w)) = last_poll_time st
              \<and> last_error_count (fst (poll_cycle lib cfg st w)) = last_error_count st
              \<and> last_slack_status (fst (poll_cycle lib cfg st w))
                  = Some (''error: '' @ str_exc lib e)
              \<and> fst (poll_cycle lib cfg st w)
                  = st\<lparr>last_slack_status := Some (''error: '' @ str_exc lib e)\<rparr>)"
proof (cases "fst (fetch_error_count lib cfg w)")
  case (Inl e)
  with poll_cycle_error_fetch_fails [OF assms Inl] show ?thesis
    by (simp add: record_error_def)
next
  case (Inr ec)
  have "should_trigger_incident (clock_eval w) cfg None ec = Inr None"
    by (simp add: should_trigger_incident_def)
  from poll_cycle_no_trigger [OF assms Inr this] Inr show ?thesis
    by (simp add: observed_def)
qed

lemma fetch_rollout_empty:
  assumes "token_file w = Inr tok"
      and "kube_get w = Inr (ok_response \<lparr>items = Some []\<rparr>)"
  shows "fst (fetch_rollout_info lib w ns dep) = Inr None"
  by (simp add: fetch_rollout_info_def kube_request_ok [OF assms])

lemma earlier_state_sel [simp]:
  "last_poll_time earlier_state = Some ''2024-01-01T00:09:40+00:00''"
  "last_error_count earlier_state = Some 3"
  "last_rollout_revision earlier_state = Some ''6''"
  "last_rollout_time earlier_state = Some ''2024-01-01T00:00:00+00:00''"
  by (simp_all add: earlier_state_def)

theorem no_rollout_keeps_rollout_fields_witness:
  "fst (fetch_rollout_info demo_lib no_rollout_world (namespace demo_config)
          (target_deployment demo_config)) = Inr None
   \<and> fst (fetch_error_count demo_lib demo_config no_rollout_world) = Inr 8
   \<and> last_rollout_revision (fst (poll_cycle demo_lib demo_config earlier_state no_rollout_world))
       = Some ''6''
   \<and> last_rollout_time (fst (poll_cycle demo_lib demo_config earlier_state no_rollout_world))
       = Some ''2024-01-01T00:00:00+00:00''
   \<and> last_poll_time (fst (poll_cycle demo_lib demo_config earlier_state no_rollout_world))
       = Some ''2024-01-01T00:10:00+00:00''
   \<and> last_error_count (fst (poll_cycle demo_lib demo_config earlier_state no_rollout_world))
       = Some 8"
proof -
  have r: "fst (fetch_rollout_info demo_lib no_rollout_world (namespace demo_config)
          (target_deployment demo_config)) = Inr None"
    by (rule fetch_rollout_empty [where tok = "''token''"]) (simp_all add: no_rollout_world_def)
  have e: "fst (fetch_error_count demo_lib demo_config no_rollout_world) = Inr 8"
    by (simp add: no_rollout_world_def demo_error_count)
  from no_rollout_keeps_rollout_fields [OF r, of earlier_state] r e show ?thesis
    by (simp add: no_rollout_world_def demo_isoformat_def utc_now_def)
qed

text \<open>
  The claim as stated fails: the rollout fetch returns nothing, the error-count
  query fails, and \<^verbatim>\<open>last_poll_time\<close> and \<^verbatim>\<open>last_error_count\<close> keep the values of
  the previous cycle.
\<close>

theorem no_rollout_counterexample:
  "fst (fetch_rollout_info demo_lib
          (no_rollout_world\<lparr>loki_get := Inl (EnvError ''Connection refused'')\<rparr>)
          (namespace demo_config) (target_deployment demo_config)) = Inr None
   \<and> last_poll_time (fst (poll_cycle demo_lib demo_config earlier_state
        (no_rollout_world\<lparr>loki_get := Inl (EnvError ''Connection refused'')\<rparr>)))
       = Some ''2024-01-01T00:09:40+00:00''
   \<and> last_error_count (fst (poll_cycle demo_lib demo_config earlier_state
        (no_rollout_world\<lparr>loki_get := Inl (EnvError ''Connection refused'')\<rparr>)))
       = Some 3
   \<and> isoformat demo_lib (utc_now (clock_poll
        (no_rollout_world\<lparr>loki_get := Inl (EnvError ''Connection refused'')\<rparr>)))
       = ''2024-01-01T00:10:00+00:00''"
proof -
  let ?w = "no_rollout_world\<lparr>loki_get := Inl (EnvError ''Connection refused'')\<rparr>"
  have r: "fst (fetch_rollout_info demo_lib ?w (namespace demo_config)
          (target_deployment demo_config)) = Inr None"
    by (rule fetch_rollout_empty [where tok = "''token''"]) (simp_all add: no_rollout_world_def)
  have e: "fst (fetch_error_count demo_lib demo_config ?w) = Inl (EnvError ''Connection refused'')"
    by (simp add: fetch_error_count_def Let_def)
  from poll_cycle_error_fetch_fails [OF r e, of earlier_state] r show ?thesis
    by (simp add: no_rollout_world_def demo_isoformat_def utc_now_def)
qed

section \<open>Deduplication across cycles\<close>

lemma cycle_gate_passed:
  assumes "triggers_on lib cfg R w" and "last_incident_revision st \<noteq> Some R"
  shows "\<exists>inc. revision inc = R
           \<and> incident_id inc = namespace cfg @ '':'' @ target_deployment cfg @ '':'' @ R
           \<and> filter is_built (snd (poll_cycle lib cfg st w)) = [Built inc]
           \<and> filter is_notify (snd (poll_cycle lib cfg st w)) = [Notify inc]
           \<and> (delivers cfg w \<longrightarrow>
                last_incident_revision (fst (poll_cycle lib cfg st w)) = Some R
                \<and> last_incident (fst (poll_cycle lib cfg st w)) = Some inc
                \<and> filter is_stdout (snd (poll_cycle lib cfg st w)) = [Stdout inc])
           \<and> (configured (slack_webhook_url cfg) \<and> delivery_error w \<noteq> None \<longrightarrow>
                last_incident_revision (fst (poll_cycle lib cfg st w))
                  = last_incident_revision st
                \<and> last_incident (fst (poll_cycle lib cfg st w)) = last_incident st
                \<and> filter is_stdout (snd (poll_cycle lib cfg st w)) = [])"
proof -
  from assms(1) obtain rtime ec where
    r: "fst (fetch_rollout_info lib w (namespace cfg) (target_deployment cfg))
          = Inr (Some (R, rtime))"
    and c: "fst (fetch_error_count lib cfg w) = Inr ec"
    and t: "should_trigger_incident (clock_eval w) cfg (Some (R, rtime)) ec
              = Inr (Some (R, rtime))"
    by (rule triggers_onD)
  let ?inc = "build_incident lib (clock_build w) cfg R rtime ec"
  let ?send = "send_slack_notification (slack_webhook_url cfg) ?inc w"
  have sel: "revision ?inc = R"
    "incident_id ?inc = namespace cfg @ '':'' @ target_deployment cfg @ '':'' @ R"
    by simp_all
  show ?thesis
  proof (cases "fst ?send")
    case (Inl e)
    have nd: "\<not> delivers cfg w"
    proof
      assume "delivers cfg w"
      then have "configured (slack_webhook_url cfg) \<longrightarrow> delivery_error w = None"
        by (simp add: delivers_def)
      from send_slack_returns [OF this, of ?inc] Inl show False
        by simp
    qed
    from poll_cycle_delivery_fails [OF r c t assms(2) Inl] nd sel show ?thesis
      by (intro exI [of _ ?inc]) auto
  next
    case (Inr status)
    have ok: "\<not> (configured (slack_webhook_url cfg) \<and> delivery_error w \<noteq> None)"
    proof
      assume a: "configured (slack_webhook_url cfg) \<and> delivery_error w \<noteq> None"
      then obtain e where "delivery_error w = Some e"
        by auto
      with a have "fst ?send = Inl e"
        by (intro send_slack_fails) simp_all
      with Inr show False
        by simp
    qed
    show ?thesis
    proof (cases "stdout_write w")
      case None
      from poll_cycle_emits [OF r c t assms(2) Inr None] ok sel show ?thesis
        by (intro exI [of _ ?inc]) auto
    next
      case (Some e)
      then have nd: "\<not> delivers cfg w"
        by (simp add: delivers_def)
      from poll_cycle_stdout_fails [OF r c t assms(2) Inr Some] ok nd sel show ?thesis
        by (intro exI [of _ ?inc]) auto
    qed
  qed
qed

lemma cycle_deduplicated:
  assumes "triggers_on lib cfg R w" and "last_incident_revision st = Some R"
  shows "last_incident_revision (fst (poll_cycle lib cfg st w)) = Some R
       \<and> last_incident (fst (poll_cycle lib cfg st w)) = last_incident st
       \<and> filter is_built (snd (poll_cycle lib cfg st w)) = []
       \<and> filter is_notify (snd (poll_cycle lib cfg st w)) = []
       \<and> filter is_stdout (snd (poll_cycle lib cfg st w)) = []
       \<and> filter is_post (snd (poll_cycle lib cfg st w)) = []"
proof -
  from assms(1) obtain rtime ec where
    r: "fst (fetch_rollout_info lib w (namespace cfg) (target_deployment cfg))
          = Inr (Some (R, rtime))"
    and c: "fst (fetch_error_count lib cfg w) = Inr ec"
    and t: "should_trigger_incident (clock_eval w) cfg (Some (R, rtime)) ec
              = Inr (Some (R, rtime))"
    by (rule triggers_onD)
  from poll_cycle_deduplicated [OF r c t assms(2)] assms(2) show ?thesis
    by simp
qed

lemma poll_loop_Cons:
  assumes "sleep lib (poll_interval_seconds cfg) = None"
  shows "poll_loop lib cfg st (w # ws) =
           (fst (poll_loop lib cfg (fst (poll_cycle lib cfg st w)) ws),
            fst (snd (poll_loop lib cfg (fst (poll_cycle lib cfg st w)) ws)),
            snd (poll_cycle lib cfg st w)
            @ snd (snd (poll_loop lib cfg (fst (poll_cycle lib cfg st w)) ws)))"
  using assms by (simp split: prod.splits)

lemma poll_loop_deduplicated:
  assumes "\<forall>w \<in> set ws. triggers_on lib cfg R w"
      and "sleep lib (poll_interval_seconds cfg) = None"
      and "last_incident_revision st = Some R"
  shows "fst (poll_loop lib cfg st ws) = None
       \<and> last_incident_revision (fst (snd (poll_loop lib cfg st ws))) = Some R
       \<and> last_incident (fst (snd (poll_loop lib cfg st ws))) = last_incident st
       \<and> filter is_built (snd (snd (poll_loop lib cfg st ws))) = []
       \<and> filter is_notify (snd (snd (poll_loop lib cfg st ws))) = []
       \<and> filter is_stdout (snd (snd (poll_loop lib cfg st ws))) = []"
  using assms
proof (induction ws arbitrary: st)
  case Nil
  then show ?case by simp
next
  case (Cons w ws)
  from Cons.prems have t: "triggers_on lib cfg R w" by simp
  note d = cycle_deduplicated [OF t Cons.prems(3)]
  from Cons.prems have "\<forall>w \<in> set ws. triggers_on lib cfg R w" by simp
  from Cons.IH [OF this Cons.prems(2), of "fst (poll_cycle lib cfg st w)"] d
  show ?case
    by (simp add: poll_loop_Cons [OF Cons.prems(2)] del: poll_loop.simps)
qed


text \<open>
  Claim C4. Over one or more consecutive successful cycles in which the trigger
  condition holds for revision \<open>R\<close> (both fetches return, the evaluator triggers on
  \<open>R\<close>, the notifier returns and the record can be written; the sleep between cycles
  returns), the loop keeps running and ends with \<^verbatim>\<open>last_incident_revision\<close> equal to
  \<open>R\<close>. If \<open>R\<close> was not the dedup key at the start (in particular if no incident had
  ever been emitted), exactly one incident is built, it is for \<open>R\<close>, it is stored,
  and there is exactly one notifier call and one emitted record; if \<open>R\<close> was the
  dedup key, nothing is built, notified or emitted. In the first cycle, emission
  happens if and only if \<open>R\<close> differs from \<^verbatim>\<open>last_incident_revision\<close>.
\<close>

theorem one_incident_per_revision:
  assumes "\<forall>w' \<in> set (w # ws). triggers_on lib cfg R w' \<and> delivers cfg w'"
      and "sleep lib (poll_interval_seconds cfg) = None"
  shows "fst (poll_loop lib cfg st (w # ws)) = None
       \<and> last_incident_revision (fst (snd (poll_loop lib cfg st (w # ws)))) = Some R
       \<and> (last_incident_revision st \<noteq> Some R \<longrightarrow>
            (\<exists>inc. revision inc = R
               \<and> filter is_built (snd (snd (poll_loop lib cfg st (w # ws)))) = [Built inc]
               \<and> filter is_notify (snd (snd (poll_loop lib cfg st (w # ws)))) = [Notify inc]
               \<and> filter is_stdout (snd (snd (poll_loop lib cfg st (w # ws)))) = [Stdout inc]
               \<and> last_incident (fst (snd (poll_loop lib cfg st (w # ws)))) = Some inc))
       \<and> (last_incident_revision st = Some R \<longrightarrow>
            filter is_built (snd (snd (poll_loop lib cfg st (w # ws)))) = []
            \<and> filter is_notify (snd (snd (poll_loop lib cfg st (w # ws)))) = []
            \<and> filter is_stdout (snd (snd (poll_loop lib cfg st (w # ws)))) = [])
       \<and> (filter is_stdout (snd (poll_cycle lib cfg st w)) \<noteq> [])
           = (last_incident_revision st \<noteq> Some R)"
proof -
  from assms(1) have t: "triggers_on lib cfg R w" and d: "delivers cfg w"
    and rest: "\<forall>w' \<in> set ws. triggers_on lib cfg R w'"
    by simp_all
  let ?st1 = "fst (poll_cycle lib cfg st w)"
  show ?thesis
  proof (cases "last_incident_revision st = Some R")
    case True
    note c = cycle_deduplicated [OF t True]
    from c have "last_incident_revision ?st1 = Some R" by simp
    from poll_loop_deduplicated [OF rest assms(2) this] c True show ?thesis
      by (simp add: poll_loop_Cons [OF assms(2)] del: poll_loop.simps)
  next
    case False
    from cycle_gate_passed [OF t False] d obtain inc where
      inc: "revision inc = R"
        "filter is_built (snd (poll_cycle lib cfg st w)) = [Built inc]"
        "filter is_notify (snd (poll_cycle lib cfg st w)) = [Notify inc]"
        "last_incident_revision ?st1 = Some R"
        "last_incident ?st1 = Some inc"
        "filter is_stdout (snd (poll_cycle lib cfg st w)) = [Stdout inc]"
      by blast
    from poll_loop_deduplicated [OF rest assms(2) inc(4)] inc False show ?thesis
      by (simp add: poll_loop_Cons [OF assms(2)] del: poll_loop.simps)
  qed
qed

lemma demo_delivers:
  assumes "stdout_write w = None"
  shows "delivers demo_config w"
  using assms by (simp add: delivers_def configured_def)

lemma count_9_triggers: "triggers_on demo_lib demo_config ''7'' count_9_world"
proof -
  have r: "fst (fetch_rollout_info demo_lib count_9_world ''demo'' ''payments-api'')
             = Inr (Some (''7'', Aware 63839664540000000 0))"
    by (rule demo_rollout) (simp_all add: count_9_world_def)
  have e: "fst (fetch_error_count demo_lib demo_config count_9_world) = Inr 9"
    by (simp add: count_9_world_def fetch_error_count_ok loki_payload_count
        demo_float_of_str_def py_int_of_float_def)
  have t: "should_trigger_incident 63839664600000000 demo_config
     (Some (''7'', Aware 63839664540000000 0)) 9 = Inr (Some (''7'', Aware 63839664540000000 0))"
    by (simp add: should_trigger_incident_def demo_window_start dt_lt_def)
  show ?thesis
    unfolding triggers_on_unfold using r e t by (auto simp: count_9_world_def)
qed

lemma demo_scenario_incident:
  "last_incident
     (fst (snd (poll_loop demo_lib demo_config initial_state [demo_world, count_9_world])))
     = Some (build_incident demo_lib 63839664600000000 demo_config ''7''
               (Aware 63839664540000000 0) 8)"
proof -
  have r: "fst (fetch_rollout_info demo_lib demo_world (namespace demo_config)
              (target_deployment demo_config)) = Inr (Some (''7'', Aware 63839664540000000 0))"
    and c: "fst (fetch_error_count demo_lib demo_config demo_world) = Inr 8"
    by (rule demo_triggers; simp)+
  have t: "should_trigger_incident (clock_eval demo_world) demo_config
      (Some (''7'', Aware 63839664540000000 0)) 8 = Inr (Some (''7'', Aware 63839664540000000 0))"
    by (simp add: demo_trigger)
  have k: "last_incident_revision initial_state \<noteq> Some ''7''"
    by simp
  have s: "fst (send_slack_notification (slack_webhook_url demo_config)
      (build_incident demo_lib (clock_build demo_world) demo_config ''7''
         (Aware 63839664540000000 0) 8) demo_world) = Inr ''skipped (no webhook configured)''"
    by (simp add: send_slack_unconfigured configured_def)
  have p: "stdout_write demo_world = None"
    by simp
  let ?st1 = "fst (poll_cycle demo_lib demo_config initial_state demo_world)"
  from poll_cycle_emits [OF r c t k s p]
  have st1: "last_incident_revision ?st1 = Some ''7''"
    "last_incident ?st1 = Some (build_incident demo_lib 63839664600000000 demo_config ''7''
               (Aware 63839664540000000 0) 8)"
    by simp_all
  have sl: "sleep demo_lib (poll_interval_seconds demo_config) = None"
    by simp
  from cycle_deduplicated [OF count_9_triggers st1(1)] st1(2) show ?thesis
    by (simp add: poll_loop_Cons [OF sl] del: poll_loop.simps(2))
qed

text \<open>
  The scenario of the specification: revision 7 created one minute ago, error count 8,
  then a second cycle with the same revision and count 9. One incident, with
  identifier \<^verbatim>\<open>demo:payments-api:7\<close> and error count 8, and no second one.
\<close>

theorem one_incident_per_revision_witness:
  "list_all (\<lambda>w. triggers_on demo_lib demo_config ''7'' w \<and> delivers demo_config w)
      [demo_world, count_9_world]
   \<and> sleep demo_lib (poll_interval_seconds demo_config) = None
   \<and> last_incident_revision initial_state \<noteq> Some ''7''
   \<and> fst (poll_loop demo_lib demo_config initial_state [demo_world, count_9_world]) = None
   \<and> last_incident_revision
        (fst (snd (poll_loop demo_lib demo_config initial_state [demo_world, count_9_world])))
       = Some ''7''
   \<and> map_option revision (last_incident
        (fst (snd (poll_loop demo_lib demo_config initial_state [demo_world, count_9_world]))))
       = Some ''7''
   \<and> map_option incident_id (last_incident
        (fst (snd (poll_loop demo_lib demo_config initial_state [demo_world, count_9_world]))))
       = Some ''demo:payments-api:7''
   \<and> map_option error_count (last_incident
        (fst (snd (poll_loop demo_lib demo_config initial_state [demo_world, count_9_world]))))
       = Some 8
   \<and> length (filter is_built
        (snd (snd (poll_loop demo_lib demo_config initial_state [demo_world, count_9_world]))))
       = 1
   \<and> length (filter is_notify
        (snd (snd (poll_loop demo_lib demo_config initial_state [demo_world, count_9_world]))))
       = 1
   \<and> length (filter is_stdout
        (snd (snd (poll_loop demo_lib demo_config initial_state [demo_world, count_9_world]))))
       = 1"
proof -
  have t1: "triggers_on demo_lib demo_config ''7'' demo_world"
    by (rule demo_triggers) simp_all
  have d: "delivers demo_config demo_world" "delivers demo_config count_9_world"
    by (simp_all add: demo_delivers count_9_world_def)
  have hyp: "\<forall>w' \<in> set [demo_world, count_9_world].
      triggers_on demo_lib demo_config ''7'' w' \<and> delivers demo_config w'"
    using t1 count_9_triggers d by simp
  have s: "sleep demo_lib (poll_interval_seconds demo_config) = None"
    by simp
  have k: "last_incident_revision initial_state \<noteq> Some ''7''"
    by simp
  from one_incident_per_revision [OF hyp s, of initial_state] k
  obtain inc where "revision inc = ''7''"
    "fst (poll_loop demo_lib demo_config initial_state [demo_world, count_9_world]) = None"
    "last_incident_revision
        (fst (snd (poll_loop demo_lib demo_config initial_state [demo_world, count_9_world])))
       = Some ''7''"
    "filter is_built
        (snd (snd (poll_loop demo_lib demo_config initial_state [demo_world, count_9_world])))
       = [Built inc]"
    "filter is_notify
        (snd (snd (poll_loop demo_lib demo_config initial_state [demo_world, count_9_world])))
       = [Notify inc]"
    "filter is_stdout
        (snd (snd (poll_loop demo_lib demo_config initial_state [demo_world, count_9_world])))
       = [Stdout inc]"
    "last_incident
        (fst (snd (poll_loop demo_lib demo_config initial_state [demo_world, count_9_world])))
       = Some inc"
    by blast
  moreover from this demo_scenario_incident
  have "incident_id inc = ''demo:payments-api:7''" "error_count inc = 8"
    by simp_all
  ultimately show ?thesis
    using t1 count_9_triggers d s k by simp
qed


section \<open>Re-arming on a new revision\<close>

text \<open>
  Claim C5, as amended. After revision \<open>R1\<close> has triggered an incident
  (\<^verbatim>\<open>last_incident_revision\<close> is \<open>R1\<close>), a cycle in which the trigger condition holds
  for a distinct revision \<open>R2\<close> passes the dedup check whatever \<open>R1\<close>'s error count
  was: it builds exactly one incident, for \<open>R2\<close>, and calls the notifier once. When
  the notifier returns and the record can be written, the incident is stored,
  \<^verbatim>\<open>last_incident_revision\<close> becomes \<open>R2\<close> and the incident is emitted. When a
  configured delivery fails, nothing is emitted and the dedup key stays \<open>R1\<close>.
\<close>

theorem new_revision_rearms:
  assumes "last_incident_revision st = Some R1" and "R1 \<noteq> R2"
      and "triggers_on lib cfg R2 w"
  shows "\<exists>inc. revision inc = R2
           \<and> incident_id inc = namespace cfg @ '':'' @ target_deployment cfg @ '':'' @ R2
           \<and> filter is_built (snd (poll_cycle lib cfg st w)) = [Built inc]
           \<and> filter is_notify (snd (poll_cycle lib cfg st w)) = [Notify inc]
           \<and> (delivers cfg w \<longrightarrow>
                last_incident_revision (fst (poll_cycle lib cfg st w)) = Some R2
                \<and> last_incident (fst (poll_cycle lib cfg st w)) = Some inc
                \<and> filter is_stdout (snd (poll_cycle lib cfg st w)) = [Stdout inc])
           \<and> (configured (slack_webhook_url cfg) \<and> delivery_error w \<noteq> None \<longrightarrow>
                last_incident_revision (fst (poll_cycle lib cfg st w)) = Some R1
                \<and> last_incident (fst (poll_cycle lib cfg st w)) = last_incident st
                \<and> filter is_stdout (snd (poll_cycle lib cfg st w)) = [])"
proof -
  from assms(1,2) have "last_incident_revision st \<noteq> Some R2"
    by simp
  from cycle_gate_passed [OF assms(3) this] assms(1) show ?thesis
    by simp
qed

lemma hook_delivers:
  assumes "stdout_write w = None" and "slack_post w = Inr 200"
  shows "delivers hook_config w"
  using assms by (simp add: delivers_def delivery_error_def)

theorem new_revision_rearms_witness:
  "last_incident_revision (initial_state\<lparr>last_incident_revision := Some ''6''\<rparr>) = Some ''6''
   \<and> ''6'' \<noteq> ''7''
   \<and> triggers_on demo_lib hook_config ''7'' demo_world
   \<and> delivers hook_config demo_world
   \<and> last_incident_revision (fst (poll_cycle demo_lib hook_config
        (initial_state\<lparr>last_incident_revision := Some ''6''\<rparr>) demo_world)) = Some ''7''
   \<and> map_option incident_id (last_incident (fst (poll_cycle demo_lib hook_config
        (initial_state\<lparr>last_incident_revision := Some ''6''\<rparr>) demo_world)))
       = Some ''demo:payments-api:7''
   \<and> length (filter is_stdout (snd (poll_cycle demo_lib hook_config
        (initial_state\<lparr>last_incident_revision := Some ''6''\<rparr>) demo_world))) = 1"
proof -
  let ?st = "initial_state\<lparr>last_incident_revision := Some ''6''\<rparr>"
  have k: "last_incident_revision ?st = Some ''6''"
    by simp
  have n: "''6'' \<noteq> ''7''"
    by simp
  have t: "triggers_on demo_lib hook_config ''7'' demo_world"
    by (rule demo_triggers) simp_all
  have d: "delivers hook_config demo_world"
    by (rule hook_delivers) simp_all
  from new_revision_rearms [OF k n t] d obtain inc where
    "incident_id inc = namespace hook_config @ '':'' @ target_deployment hook_config
       @ '':'' @ ''7''"
    "last_incident_revision (fst (poll_cycle demo_lib hook_config ?st demo_world)) = Some ''7''"
    "last_incident (fst (poll_cycle demo_lib hook_config ?st demo_world)) = Some inc"
    "filter is_stdout (snd (poll_cycle demo_lib hook_config ?st demo_world)) = [Stdout inc]"
    by blast
  with k t d show ?thesis
    by simp
qed

lemma revision_6_triggers: "triggers_on demo_lib hook_config ''6'' revision_6_world"
proof -
  have r: "fst (fetch_rollout_info demo_lib revision_6_world ''demo'' ''payments-api'')
             = Inr (Some (''6'', Aware 63839664000000000 0))"
    by (rule fetch_rollout_single
          [where tok = "''token''" and ts = "''2024-01-01T00:00:00Z''"])
       (simp_all add: revision_6_world_def demo_parse)
  have e: "fst (fetch_error_count demo_lib hook_config revision_6_world) = Inr 8"
    by (simp add: revision_6_world_def demo_error_count)
  have t: "should_trigger_incident 63839664600000000 hook_config
     (Some (''6'', Aware 63839664000000000 0)) 8 = Inr (Some (''6'', Aware 63839664000000000 0))"
    by (simp add: should_trigger_incident_def window_start_def timedelta_minutes_def
        datetime_sub_def utc_now_def dt_max_def dt_lt_def)
  show ?thesis
    unfolding triggers_on_unfold using r e t by (auto simp: revision_6_world_def)
qed

text \<open>
  The claim as stated fails. First cycle: revision 6 triggers, the webhook answers
  200, the incident is emitted. Second cycle: revision 7 is observed with the trigger
  condition satisfied, the webhook answers 500: no incident is emitted for revision
  7 and \<^verbatim>\<open>last_incident_revision\<close> is still 6.
\<close>

theorem new_revision_counterexample:
  "triggers_on demo_lib hook_config ''6'' revision_6_world
   \<and> delivers hook_config revision_6_world
   \<and> triggers_on demo_lib hook_config ''7'' (demo_world\<lparr>slack_post := Inr 500\<rparr>)
   \<and> last_incident_revision
        (fst (poll_cycle demo_lib hook_config initial_state revision_6_world)) = Some ''6''
   \<and> fst (poll_loop demo_lib hook_config initial_state
        [revision_6_world, demo_world\<lparr>slack_post := Inr 500\<rparr>]) = None
   \<and> last_incident_revision (fst (snd (poll_loop demo_lib hook_config initial_state
        [revision_6_world, demo_world\<lparr>slack_post := Inr 500\<rparr>]))) = Some ''6''
   \<and> filter is_stdout (snd (poll_cycle demo_lib hook_config
        (fst (poll_cycle demo_lib hook_config initial_state revision_6_world))
        (demo_world\<lparr>slack_post := Inr 500\<rparr>))) = []"
proof -
  let ?w7 = "demo_world\<lparr>slack_post := Inr 500\<rparr>"
  let ?s1 = "fst (poll_cycle demo_lib hook_config initial_state revision_6_world)"
  have d6: "delivers hook_config revision_6_world"
    by (rule hook_delivers) (simp_all add: revision_6_world_def)
  have t7: "triggers_on demo_lib hook_config ''7'' ?w7"
    by (rule demo_triggers) simp_all
  have k0: "last_incident_revision initial_state \<noteq> Some ''6''"
    by simp
  from cycle_gate_passed [OF revision_6_triggers k0] d6
  have k1: "last_incident_revision ?s1 = Some ''6''"
    by blast
  then have k1': "last_incident_revision ?s1 \<noteq> Some ''7''"
    by simp
  have f: "configured (slack_webhook_url hook_config) \<and> delivery_error ?w7 \<noteq> None"
    using hook_configured demo_delivery_500 by simp
  from cycle_gate_passed [OF t7 k1'] f k1
  have c2: "last_incident_revision (fst (poll_cycle demo_lib hook_config ?s1 ?w7)) = Some ''6''"
    "filter is_stdout (snd (poll_cycle demo_lib hook_config ?s1 ?w7)) = []"
    by auto
  have s: "sleep demo_lib (poll_interval_seconds hook_config) = None"
    by simp
  have "poll_loop demo_lib hook_config initial_state [revision_6_world, ?w7] =
          (None, fst (poll_cycle demo_lib hook_config ?s1 ?w7),
           snd (poll_cycle demo_lib hook_config initial_state revision_6_world)
           @ snd (poll_cycle demo_lib hook_config ?s1 ?w7))"
    by (simp add: poll_loop_Cons [OF s] del: poll_loop.simps(2))
  with revision_6_triggers d6 t7 k1 c2 show ?thesis
    by simp
qed

section \<open>Delivery failure: what the cycle records\<close>

lemma delivery_failure_state:
  assumes "triggers_on lib cfg R w" and "last_incident_revision st \<noteq> Some R"
      and "configured (slack_webhook_url cfg)" and "delivery_error w = Some e"
  shows "\<exists>rtime ec url.
           fst (fetch_rollout_info lib w (namespace cfg) (target_deployment cfg))
             = Inr (Some (R, rtime))
           \<and> fst (fetch_error_count lib cfg w) = Inr ec
           \<and> slack_webhook_url cfg = Some url
           \<and> fst (poll_cycle lib cfg st w) =
               st\<lparr>last_poll_time := Some (isoformat lib (utc_now (clock_poll w))),
                  last_error_count := Some ec,
                  last_rollout_revision := Some R,
                  last_rollout_time := Some (isoformat lib rtime),
                  last_slack_status := Some (''error: '' @ str_exc lib e)\<rparr>
           \<and> snd (poll_cycle lib cfg st w) =
               snd (fetch_rollout_info lib w (namespace cfg) (target_deployment cfg))
               @ snd (fetch_error_count lib cfg w)
               @ [Built (build_incident lib (clock_build w) cfg R rtime ec),
                  Notify (build_incident lib (clock_build w) cfg R rtime ec),
                  HttpPost url
                    (format_slack_message (build_incident lib (clock_build w) cfg R rtime ec))]"
proof -
  from assms(1) obtain rtime ec where
    r: "fst (fetch_rollout_info lib w (namespace cfg) (target_deployment cfg))
          = Inr (Some (R, rtime))"
    and c: "fst (fetch_error_count lib cfg w) = Inr ec"
    and t: "should_trigger_incident (clock_eval w) cfg (Some (R, rtime)) ec
              = Inr (Some (R, rtime))"
    by (rule triggers_onD)
  let ?inc = "build_incident lib (clock_build w) cfg R rtime ec"
  from assms(3) obtain url where u: "slack_webhook_url cfg = Some url"
    by (auto simp: configured_def split: option.splits)
  have s: "fst (send_slack_notification (slack_webhook_url cfg) ?inc w) = Inl e"
    using assms(3,4) by (rule send_slack_fails)
  have ev: "snd (send_slack_notification (slack_webhook_url cfg) ?inc w)
              = [HttpPost url (format_slack_message ?inc)]"
    using assms(3) u by (simp add: send_slack_configured)
  have st: "record_error lib e (observed lib st w ec (Some (R, rtime))) =
              st\<lparr>last_poll_time := Some (isoformat lib (utc_now (clock_poll w))),
                 last_error_count := Some ec,
                 last_rollout_revision := Some R,
                 last_rollout_time := Some (isoformat lib rtime),
                 last_slack_status := Some (''error: '' @ str_exc lib e)\<rparr>"
    by (simp add: record_error_def observed_def)
  from poll_cycle_delivery_fails [OF r c t assms(2) s] have
    "fst (poll_cycle lib cfg st w) = record_error lib e (observed lib st w ec (Some (R, rtime)))"
    "snd (poll_cycle lib cfg st w) =
       snd (fetch_rollout_info lib w (namespace cfg) (target_deployment cfg))
       @ snd (fetch_error_count lib cfg w)
       @ [Built ?inc, Notify ?inc]
       @ snd (send_slack_notification (slack_webhook_url cfg) ?inc w)"
    by simp_all
  with r c u st ev show ?thesis
    by (intro exI [of _ rtime] exI [of _ ec] exI [of _ url]) simp
qed

text \<open>
  Claim C1, as amended. When the trigger condition holds for a revision \<open>R\<close> that is
  not the dedup key, a webhook is configured and the delivery fails with exception
  \<open>e\<close> (the POST raises, or it returns a failure status), the state after the cycle
  is the state before it with exactly five fields assigned: \<^verbatim>\<open>last_poll_time\<close>,
  \<^verbatim>\<open>last_error_count\<close>, \<^verbatim>\<open>last_rollout_revision\<close> and \<^verbatim>\<open>last_rollout_time\<close>
  hold this cycle's observations and \<^verbatim>\<open>last_slack_status\<close> is the outcome string
  \<^verbatim>\<open>error: \<close>\<open>e\<close>. \<^verbatim>\<open>last_incident_revision\<close> and \<^verbatim>\<open>last_incident\<close> keep
  their values. The incident was built and one POST attempted, and no incident
  record is written to standard output. The loop is not ended by the failure: it goes
  on to its sleep and to the next cycle from that state. There the revision is
  tried again: a cycle in which the trigger condition holds for \<open>R\<close> builds an
  incident for \<open>R\<close> and calls the notifier once more and, when the notifier returns
  and the record can be written, sets \<^verbatim>\<open>last_incident_revision\<close> to \<open>R\<close>, stores the
  incident and emits it.
\<close>

theorem delivery_failure_aborts_recording:
  assumes "triggers_on lib cfg R w" and "last_incident_revision st \<noteq> Some R"
      and "configured (slack_webhook_url cfg)" and "delivery_error w = Some e"
  shows "(\<exists>rtime ec url.
            fst (fetch_rollout_info lib w (namespace cfg) (target_deployment cfg))
              = Inr (Some (R, rtime))
            \<and> fst (fetch_error_count lib cfg w) = Inr ec
            \<and> slack_webhook_url cfg = Some url
            \<and> fst (poll_cycle lib cfg st w) =
                st\<lparr>last_poll_time := Some (isoformat lib (utc_now (clock_poll w))),
                   last_error_count := Some ec,
                   last_rollout_revision := Some R,
                   last_rollout_time := Some (isoformat lib rtime),
                   last_slack_status := Some (''error: '' @ str_exc lib e)\<rparr>
            \<and> snd (poll_cycle lib cfg st w) =
                snd (fetch_rollout_info lib w (namespace cfg) (target_deployment cfg))
                @ snd (fetch_error_count lib cfg w)
                @ [Built (build_incident lib (clock_build w) cfg R rtime ec),
                   Notify (build_incident lib (clock_build w) cfg R rtime ec),
                   HttpPost url
                     (format_slack_message
                        (build_incident lib (clock_build w) cfg R rtime ec))])
       \<and> last_slack_status (fst (poll_cycle lib cfg st w)) = Some (''error: '' @ str_exc lib e)
       \<and> last_incident_revision (fst (poll_cycle lib cfg st w)) = last_incident_revision st
       \<and> last_incident (fst (poll_cycle lib cfg st w)) = last_incident st
       \<and> filter is_stdout (snd (poll_cycle lib cfg st w)) = []
       \<and> length (filter is_post (snd (poll_cycle lib cfg st w))) = 1
       \<and> last_poll_time (fst (poll_cycle lib cfg st w))
           = Some (isoformat lib (utc_now (clock_poll w)))
       \<and> last_rollout_revision (fst (poll_cycle lib cfg st w)) = Some R
       \<and> fst (poll_loop lib cfg st [w]) = sleep lib (poll_interval_seconds cfg)
       \<and> (sleep lib (poll_interval_seconds cfg) = None \<longrightarrow>
            poll_loop lib cfg st (w # ws) =
              (fst (poll_loop lib cfg (fst (poll_cycle lib cfg st w)) ws),
               fst (snd (poll_loop lib cfg (fst (poll_cycle lib cfg st w)) ws)),
               snd (poll_cycle lib cfg st w)
               @ snd (snd (poll_loop lib cfg (fst (poll_cycle lib cfg st w)) ws))))
       \<and> (triggers_on lib cfg R w' \<longrightarrow>
            (\<exists>inc. revision inc = R
               \<and> filter is_built (snd (poll_cycle lib cfg (fst (poll_cycle lib cfg st w)) w'))
                   = [Built inc]
               \<and> filter is_notify (snd (poll_cycle lib cfg (fst (poll_cycle lib cfg st w)) w'))
                   = [Notify inc]
               \<and> (delivers cfg w' \<longrightarrow>
                    last_incident_revision
                        (fst (poll_cycle lib cfg (fst (poll_cycle lib cfg st w)) w')) = Some R
                    \<and> last_incident
                        (fst (poll_cycle lib cfg (fst (poll_cycle lib cfg st w)) w')) = Some inc
                    \<and> filter is_stdout
                        (snd (poll_cycle lib cfg (fst (poll_cycle lib cfg st w)) w'))
                        = [Stdout inc])))"
proof -
  let ?st' = "fst (poll_cycle lib cfg st w)"
  let ?ev = "snd (poll_cycle lib cfg st w)"
  from delivery_failure_state [OF assms] obtain rtime ec url where
    r: "fst (fetch_rollout_info lib w (namespace cfg) (target_deployment cfg))
          = Inr (Some (R, rtime))"
    and c: "fst (fetch_error_count lib cfg w) = Inr ec"
    and u: "slack_webhook_url cfg = Some url"
    and s: "?st' =
              st\<lparr>last_poll_time := Some (isoformat lib (utc_now (clock_poll w))),
                 last_error_count := Some ec,
                 last_rollout_revision := Some R,
                 last_rollout_time := Some (isoformat lib rtime),
                 last_slack_status := Some (''error: '' @ str_exc lib e)\<rparr>"
    and v: "?ev =
              snd (fetch_rollout_info lib w (namespace cfg) (target_deployment cfg))
              @ snd (fetch_error_count lib cfg w)
              @ [Built (build_incident lib (clock_build w) cfg R rtime ec),
                 Notify (build_incident lib (clock_build w) cfg R rtime ec),
                 HttpPost url
                   (format_slack_message (build_incident lib (clock_build w) cfg R rtime ec))]"
    by blast
  have first: "\<exists>rtime ec url.
      fst (fetch_rollout_info lib w (namespace cfg) (target_deployment cfg))
        = Inr (Some (R, rtime))
      \<and> fst (fetch_error_count lib cfg w) = Inr ec
      \<and> slack_webhook_url cfg = Some url
      \<and> ?st' =
          st\<lparr>last_poll_time := Some (isoformat lib (utc_now (clock_poll w))),
             last_error_count := Some ec,
             last_rollout_revision := Some R,
             last_rollout_time := Some (isoformat lib rtime),
             last_slack_status := Some (''error: '' @ str_exc lib e)\<rparr>
      \<and> ?ev =
          snd (fetch_rollout_info lib w (namespace cfg) (target_deployment cfg))
          @ snd (fetch_error_count lib cfg w)
          @ [Built (build_incident lib (clock_build w) cfg R rtime ec),
             Notify (build_incident lib (clock_build w) cfg R rtime ec),
             HttpPost url
               (format_slack_message (build_incident lib (clock_build w) cfg R rtime ec))]"
    using r c u s v by blast
  have fields: "last_slack_status ?st' = Some (''error: '' @ str_exc lib e)"
    "last_incident_revision ?st' = last_incident_revision st"
    "last_incident ?st' = last_incident st"
    "last_poll_time ?st' = Some (isoformat lib (utc_now (clock_poll w)))"
    "last_rollout_revision ?st' = Some R"
    by (simp_all add: s)
  have events: "filter is_stdout ?ev = []" "length (filter is_post ?ev) = 1"
    by (simp_all add: v)
  have loop1: "fst (poll_loop lib cfg st [w]) = sleep lib (poll_interval_seconds cfg)"
    by (simp split: prod.splits option.splits)
  have loop2: "sleep lib (poll_interval_seconds cfg) = None \<longrightarrow>
      poll_loop lib cfg st (w # ws) =
        (fst (poll_loop lib cfg ?st' ws), fst (snd (poll_loop lib cfg ?st' ws)),
         ?ev @ snd (snd (poll_loop lib cfg ?st' ws)))"
    using poll_loop_Cons [of lib cfg st w ws] by blast
  have retry: "triggers_on lib cfg R w' \<longrightarrow>
      (\<exists>inc. revision inc = R
         \<and> filter is_built (snd (poll_cycle lib cfg ?st' w')) = [Built inc]
         \<and> filter is_notify (snd (poll_cycle lib cfg ?st' w')) = [Notify inc]
         \<and> (delivers cfg w' \<longrightarrow>
              last_incident_revision (fst (poll_cycle lib cfg ?st' w')) = Some R
              \<and> last_incident (fst (poll_cycle lib cfg ?st' w')) = Some inc
              \<and> filter is_stdout (snd (poll_cycle lib cfg ?st' w')) = [Stdout inc]))"
  proof
    assume t': "triggers_on lib cfg R w'"
    from fields(2) assms(2) have "last_incident_revision ?st' \<noteq> Some R"
      by simp
    from cycle_gate_passed [OF t' this] show "\<exists>inc. revision inc = R
         \<and> filter is_built (snd (poll_cycle lib cfg ?st' w')) = [Built inc]
         \<and> filter is_notify (snd (poll_cycle lib cfg ?st' w')) = [Notify inc]
         \<and> (delivers cfg w' \<longrightarrow>
              last_incident_revision (fst (poll_cycle lib cfg ?st' w')) = Some R
              \<and> last_incident (fst (poll_cycle lib cfg ?st' w')) = Some inc
              \<and> filter is_stdout (snd (poll_cycle lib cfg ?st' w')) = [Stdout inc])"
      by blast
  qed
  from first fields events loop1 loop2 retry show ?thesis
    by (intro conjI)
qed

text \<open>
  Revision 7 triggers and the POST times out; in the next cycle the webhook answers
  200 and the incident for revision 7 is recorded and emitted.
\<close>

theorem delivery_failure_aborts_recording_witness:
  "triggers_on demo_lib hook_config ''7''
     (demo_world\<lparr>slack_post := Inl (EnvError ''Read timed out.'')\<rparr>)
   \<and> last_incident_revision initial_state \<noteq> Some ''7''
   \<and> configured (slack_webhook_url hook_config)
   \<and> delivery_error (demo_world\<lparr>slack_post := Inl (EnvError ''Read timed out.'')\<rparr>)
       = Some (EnvError ''Read timed out.'')
   \<and> fst (poll_cycle demo_lib hook_config initial_state
        (demo_world\<lparr>slack_post := Inl (EnvError ''Read timed out.'')\<rparr>))
       = \<lparr>last_poll_time = Some ''2024-01-01T00:10:00+00:00'',
          last_error_count = Some 8,
          last_rollout_revision = Some ''7'',
          last_rollout_time = Some ''2024-01-01T00:09:00+00:00'',
          last_incident_revision = None,
          last_incident = None,
          last_slack_status = Some ''error: Read timed out.''\<rparr>
   \<and> filter is_stdout (snd (poll_cycle demo_lib hook_config initial_state
        (demo_world\<lparr>slack_post := Inl (EnvError ''Read timed out.'')\<rparr>))) = []
   \<and> length (filter is_post (snd (poll_cycle demo_lib hook_config initial_state
        (demo_world\<lparr>slack_post := Inl (EnvError ''Read timed out.'')\<rparr>)))) = 1
   \<and> triggers_on demo_lib hook_config ''7'' demo_world
   \<and> delivers hook_config demo_world
   \<and> sleep demo_lib (poll_interval_seconds hook_config) = None
   \<and> fst (poll_loop demo_lib hook_config initial_state
        [demo_world\<lparr>slack_post := Inl (EnvError ''Read timed out.'')\<rparr>, demo_world]) = None
   \<and> last_incident_revision (fst (snd (poll_loop demo_lib hook_config initial_state
        [demo_world\<lparr>slack_post := Inl (EnvError ''Read timed out.'')\<rparr>, demo_world])))
       = Some ''7''
   \<and> length (filter is_stdout (snd (snd (poll_loop demo_lib hook_config initial_state
        [demo_world\<lparr>slack_post := Inl (EnvError ''Read timed out.'')\<rparr>, demo_world]))))
       = 1"
proof -
  let ?w = "demo_world\<lparr>slack_post := Inl (EnvError ''Read timed out.'')\<rparr>"
  let ?st' = "fst (poll_cycle demo_lib hook_config initial_state ?w)"
  have t: "triggers_on demo_lib hook_config ''7'' ?w"
    by (rule demo_triggers) simp_all
  have k: "last_incident_revision initial_state \<noteq> Some ''7''"
    by simp
  have t': "triggers_on demo_lib hook_config ''7'' demo_world"
    by (rule demo_triggers) simp_all
  have d': "delivers hook_config demo_world"
    by (rule hook_delivers) simp_all
  have sl: "sleep demo_lib (poll_interval_seconds hook_config) = None"
    by simp
  have fr: "fst (fetch_rollout_info demo_lib ?w (namespace hook_config)
              (target_deployment hook_config)) = Inr (Some (''7'', Aware 63839664540000000 0))"
    and fe: "fst (fetch_error_count demo_lib hook_config ?w) = Inr 8"
    by (rule demo_triggers; simp)+
  note c1 = delivery_failure_aborts_recording
    [OF t k hook_configured demo_delivery_timeout, of "[demo_world]" demo_world]
  from c1 fr fe have state: "?st' =
      initial_state\<lparr>last_poll_time := Some (isoformat demo_lib (utc_now (clock_poll ?w))),
         last_error_count := Some 8,
         last_rollout_revision := Some ''7'',
         last_rollout_time := Some (isoformat demo_lib (Aware 63839664540000000 0)),
         last_slack_status := Some (''error: '' @ str_exc demo_lib (EnvError ''Read timed out.''))\<rparr>"
    by auto
  have state': "?st' =
      \<lparr>last_poll_time = Some ''2024-01-01T00:10:00+00:00'',
       last_error_count = Some 8,
       last_rollout_revision = Some ''7'',
       last_rollout_time = Some ''2024-01-01T00:09:00+00:00'',
       last_incident_revision = None,
       last_incident = None,
       last_slack_status = Some ''error: Read timed out.''\<rparr>"
    unfolding state
    by (simp add: initial_state_def demo_isoformat_def utc_now_def demo_str_exc_def)
  from c1 have ev: "filter is_stdout (snd (poll_cycle demo_lib hook_config initial_state ?w)) = []"
    "length (filter is_post (snd (poll_cycle demo_lib hook_config initial_state ?w))) = 1"
    by blast+
  from c1 t' d' obtain inc where
    retry: "last_incident_revision (fst (poll_cycle demo_lib hook_config ?st' demo_world))
              = Some ''7''"
      "filter is_stdout (snd (poll_cycle demo_lib hook_config ?st' demo_world)) = [Stdout inc]"
    by blast
  from c1 sl have "poll_loop demo_lib hook_config initial_state [?w, demo_world] =
      (fst (poll_loop demo_lib hook_config ?st' [demo_world]),
       fst (snd (poll_loop demo_lib hook_config ?st' [demo_world])),
       snd (poll_cycle demo_lib hook_config initial_state ?w)
       @ snd (snd (poll_loop demo_lib hook_config ?st' [demo_world])))"
    by blast
  then have loop: "poll_loop demo_lib hook_config initial_state [?w, demo_world] =
      (None, fst (poll_cycle demo_lib hook_config ?st' demo_world),
       snd (poll_cycle demo_lib hook_config initial_state ?w)
       @ snd (poll_cycle demo_lib hook_config ?st' demo_world))"
    by (simp add: poll_loop_Cons [OF sl] del: poll_loop.simps(2))
  have after: "fst (poll_loop demo_lib hook_config initial_state [?w, demo_world]) = None"
    "last_incident_revision
       (fst (snd (poll_loop demo_lib hook_config initial_state [?w, demo_world]))) = Some ''7''"
    "length (filter is_stdout
       (snd (snd (poll_loop demo_lib hook_config initial_state [?w, demo_world])))) = 1"
    by (simp_all add: loop retry ev del: poll_loop.simps)
  show ?thesis
    using t k hook_configured demo_delivery_timeout state' ev t' d' sl after
    by (simp del: poll_loop.simps)
qed

text \<open>
  The claim as stated fails: revision 7 of \<^verbatim>\<open>payments-api\<close> triggers, the webhook
  answers 500, and the cycle leaves \<^verbatim>\<open>last_incident_revision\<close> and
  \<^verbatim>\<open>last_incident\<close> empty and writes no incident record.
\<close>

theorem delivery_failure_counterexample:
  "triggers_on demo_lib hook_config ''7'' (demo_world\<lparr>slack_post := Inr 500\<rparr>)
   \<and> configured (slack_webhook_url hook_config)
   \<and> delivery_error (demo_world\<lparr>slack_post := Inr 500\<rparr>) = Some (HTTPError 500)
   \<and> last_incident_revision (fst (poll_cycle demo_lib hook_config initial_state
        (demo_world\<lparr>slack_post := Inr 500\<rparr>))) = None
   \<and> last_incident (fst (poll_cycle demo_lib hook_config initial_state
        (demo_world\<lparr>slack_post := Inr 500\<rparr>))) = None
   \<and> filter is_stdout (snd (poll_cycle demo_lib hook_config initial_state
        (demo_world\<lparr>slack_post := Inr 500\<rparr>))) = []"
proof -
  let ?w = "demo_world\<lparr>slack_post := Inr 500\<rparr>"
  have t: "triggers_on demo_lib hook_config ''7'' ?w"
    by (rule demo_triggers) simp_all
  have k: "last_incident_revision initial_state \<noteq> Some ''7''"
    by simp
  from delivery_failure_cycle [OF t k hook_configured demo_delivery_500]
  obtain rtime ec inc url body where
    "poll_cycle demo_lib hook_config initial_state ?w =
       (record_error demo_lib (HTTPError 500)
          (observed demo_lib initial_state ?w ec (Some (''7'', rtime))),
        snd (fetch_rollout_info demo_lib ?w (namespace hook_config)
               (target_deployment hook_config))
        @ snd (fetch_error_count demo_lib hook_config ?w)
        @ [Built inc, Notify inc, HttpPost url body])"
    by blast
  with t hook_configured demo_delivery_500 show ?thesis
    by simp
qed

section \<open>What a status reader can observe\<close>

lemma poll_cycle_states_last:
  "last (st # poll_cycle_states lib cfg st w) = fst (poll_cycle lib cfg st w)"
proof (cases "fetch_rollout_info lib w (namespace cfg) (target_deployment cfg)")
  case r: (Pair rr ev1)
  show ?thesis
  proof (cases rr)
    case (Inl e)
    with r show ?thesis
      by (simp add: poll_cycle_states_def poll_cycle_def)
  next
    case rollout: (Inr rollout)
    show ?thesis
    proof (cases "fetch_error_count lib cfg w")
      case c: (Pair cr ev2)
      show ?thesis
      proof (cases cr)
        case (Inl e)
        with r rollout c show ?thesis
          by (simp add: poll_cycle_states_def poll_cycle_def)
      next
        case ec: (Inr ec)
        show ?thesis
        proof (cases "should_trigger_incident (clock_eval w) cfg rollout ec")
          case (Inl e)
          with r rollout c ec show ?thesis
            by (simp add: poll_cycle_states_def poll_cycle_def Let_def split: option.splits)
        next
          case t: (Inr verdict)
          show ?thesis
          proof (cases verdict)
            case None
            with r rollout c ec t show ?thesis
              by (simp add: poll_cycle_states_def poll_cycle_def Let_def split: option.splits)
          next
            case (Some x)
            obtain rv rtime where x: "x = (rv, rtime)" by (cases x)
            from t Some x have ro: "rollout = Some (rv, rtime)"
              by (simp add: should_trigger_SomeD)
            show ?thesis
            proof (cases "send_slack_notification (slack_webhook_url cfg)
                (build_incident lib (clock_build w) cfg rv rtime ec) w")
              case s: (Pair sr ev3)
              with r rollout c ec t Some x ro show ?thesis
                by (cases sr; cases "stdout_write w")
                   (simp_all add: poll_cycle_states_def poll_cycle_def Let_def)
            qed
          qed
        qed
      qed
    qed
  qed
qed

lemma emitting_cycle_states:
  assumes "fst (fetch_rollout_info lib w (namespace cfg) (target_deployment cfg))
             = Inr (Some (rv, rtime))"
      and "fst (fetch_error_count lib cfg w) = Inr ec"
      and "should_trigger_incident (clock_eval w) cfg (Some (rv, rtime)) ec
             = Inr (Some (rv, rtime))"
      and "last_incident_revision st \<noteq> Some rv"
      and "fst (send_slack_notification (slack_webhook_url cfg)
             (build_incident lib (clock_build w) cfg rv rtime ec) w) = Inr status"
      and "stdout_write w = None"
  shows "poll_cycle_states lib cfg st w =
          [st\<lparr>last_poll_time := Some (isoformat lib (utc_now (clock_poll w)))\<rparr>,
           st\<lparr>last_poll_time := Some (isoformat lib (utc_now (clock_poll w))),
               last_error_count := Some ec\<rparr>,
           st\<lparr>last_poll_time := Some (isoformat lib (utc_now (clock_poll w))),
               last_error_count := Some ec, last_rollout_revision := Some rv\<rparr>,
           observed lib st w ec (Some (rv, rtime)),
           (observed lib st w ec (Some (rv, rtime)))\<lparr>last_incident_revision := Some rv\<rparr>,
           (observed lib st w ec (Some (rv, rtime)))
             \<lparr>last_incident_revision := Some rv,
              last_incident := Some (build_incident lib (clock_build w) cfg rv rtime ec)\<rparr>,
           (observed lib st w ec (Some (rv, rtime)))
             \<lparr>last_incident_revision := Some rv,
              last_incident := Some (build_incident lib (clock_build w) cfg rv rtime ec),
              last_slack_status := Some status\<rparr>]"
  using assms by (simp add: poll_cycle_states_def observed_def Let_def)

text \<open>
  Claim C9, as amended. The code takes no lock. After the last assignment of a cycle
  the state is the result of that cycle. During an emitting cycle the assignments
  reach the state one by one, the dedup key before the stored incident: there is a
  state, visible to a reader, in which \<^verbatim>\<open>last_incident_revision\<close> is already the
  new revision while \<^verbatim>\<open>last_incident\<close> is still that of the previous cycle.
\<close>

theorem reader_sees_partial_update:
  assumes "triggers_on lib cfg R w" and "last_incident_revision st \<noteq> Some R"
      and "delivers cfg w"
  shows "last (st # poll_cycle_states lib cfg st w) = fst (poll_cycle lib cfg st w)
       \<and> last_incident_revision (fst (poll_cycle lib cfg st w)) = Some R
       \<and> last_incident (fst (poll_cycle lib cfg st w)) \<noteq> None
       \<and> (\<exists>s \<in> set (poll_cycle_states lib cfg st w).
             last_incident_revision s = Some R \<and> last_incident s = last_incident st)"
proof -
  from assms(1) obtain rtime ec where
    r: "fst (fetch_rollout_info lib w (namespace cfg) (target_deployment cfg))
          = Inr (Some (R, rtime))"
    and c: "fst (fetch_error_count lib cfg w) = Inr ec"
    and t: "should_trigger_incident (clock_eval w) cfg (Some (R, rtime)) ec
              = Inr (Some (R, rtime))"
    by (rule triggers_onD)
  let ?inc = "build_incident lib (clock_build w) cfg R rtime ec"
  from assms(3) have "configured (slack_webhook_url cfg) \<longrightarrow> delivery_error w = None"
    and p: "stdout_write w = None"
    by (simp_all add: delivers_def)
  from send_slack_returns [OF this(1), of ?inc] obtain status where
    s: "fst (send_slack_notification (slack_webhook_url cfg) ?inc w) = Inr status"
    by blast
  let ?mid = "(observed lib st w ec (Some (R, rtime)))\<lparr>last_incident_revision := Some R\<rparr>"
  have "?mid \<in> set (poll_cycle_states lib cfg st w)"
    by (simp add: emitting_cycle_states [OF r c t assms(2) s p])
  moreover have "last_incident_revision ?mid = Some R \<and> last_incident ?mid = last_incident st"
    by simp
  ultimately have "\<exists>s \<in> set (poll_cycle_states lib cfg st w).
      last_incident_revision s = Some R \<and> last_incident s = last_incident st"
    by blast
  moreover have "last_incident_revision (fst (poll_cycle lib cfg st w)) = Some R
      \<and> last_incident (fst (poll_cycle lib cfg st w)) \<noteq> None"
    by (simp add: poll_cycle_emits [OF r c t assms(2) s p])
  moreover note poll_cycle_states_last [of st lib cfg w]
  ultimately show ?thesis
    by blast
qed

theorem reader_sees_partial_update_witness:
  "triggers_on demo_lib demo_config ''7'' demo_world
   \<and> last_incident_revision initial_state \<noteq> Some ''7''
   \<and> delivers demo_config demo_world
   \<and> last (initial_state # poll_cycle_states demo_lib demo_config initial_state demo_world)
       = fst (poll_cycle demo_lib demo_config initial_state demo_world)
   \<and> last_incident_revision (fst (poll_cycle demo_lib demo_config initial_state demo_world))
       = Some ''7''
   \<and> list_ex (\<lambda>s. last_incident_revision s = Some ''7'' \<and> last_incident s = None)
        (poll_cycle_states demo_lib demo_config initial_state demo_world)"
proof -
  have t: "triggers_on demo_lib demo_config ''7'' demo_world"
    by (rule demo_triggers) simp_all
  have k: "last_incident_revision initial_state \<noteq> Some ''7''"
    by simp
  have d: "delivers demo_config demo_world"
    by (simp add: demo_delivers)
  from reader_sees_partial_update [OF t k d] t k d show ?thesis
    by (simp add: list_ex_iff)
qed

text \<open>
  The claim as stated fails. In the cycle that emits the incident for revision 7, the
  fifth of the seven successive states has \<^verbatim>\<open>last_incident_revision\<close> set to 7 and no
  stored incident: it is neither the state before the cycle nor the state after it.
\<close>

theorem reader_atomicity_counterexample:
  "length (poll_cycle_states demo_lib demo_config initial_state demo_world) = 7
   \<and> last_incident_revision
        (poll_cycle_states demo_lib demo_config initial_state demo_world ! 4) = Some ''7''
   \<and> last_incident
        (poll_cycle_states demo_lib demo_config initial_state demo_world ! 4) = None
   \<and> last_incident_revision initial_state = None
   \<and> map_option revision
        (last_incident (fst (poll_cycle demo_lib demo_config initial_state demo_world)))
       = Some ''7''"
proof -
  have r: "fst (fetch_rollout_info demo_lib demo_world (namespace demo_config)
              (target_deployment demo_config)) = Inr (Some (''7'', Aware 63839664540000000 0))"
    and c: "fst (fetch_error_count demo_lib demo_config demo_world) = Inr 8"
    by (rule demo_triggers; simp)+
  have t: "should_trigger_incident (clock_eval demo_world) demo_config
      (Some (''7'', Aware 63839664540000000 0)) 8 = Inr (Some (''7'', Aware 63839664540000000 0))"
    by (simp add: demo_trigger)
  have k: "last_incident_revision initial_state \<noteq> Some ''7''"
    by simp
  have s: "fst (send_slack_notification (slack_webhook_url demo_config)
      (build_incident demo_lib (clock_build demo_world) demo_config ''7''
         (Aware 63839664540000000 0) 8) demo_world) = Inr ''skipped (no webhook configured)''"
    by (simp add: send_slack_unconfigured configured_def)
  have p: "stdout_write demo_world = None"
    by simp
  from emitting_cycle_states [OF r c t k s p] poll_cycle_emits [OF r c t k s p]
  show ?thesis
    by simp
qed


end
